theory Spec2Isabelle
  imports Complex_Main
begin

section \<open>SleekGizmoLite: a translation gizmo\<close>

text \<open>
  The source is one class, \<^verbatim>\<open>SleekGizmoLite\<close> (src/SleekGizmoLite.js), built on the
  three.js r128 primitives \<^verbatim>\<open>Vector3\<close>, \<^verbatim>\<open>Quaternion\<close>, \<^verbatim>\<open>Plane\<close>, \<^verbatim>\<open>Ray\<close>,
  \<^verbatim>\<open>Group\<close> and \<^verbatim>\<open>Raycaster\<close>.  JavaScript numbers are modelled as real numbers:
  the vector algebra below is the exact one, without floating-point rounding.
  Mutation of \<^verbatim>\<open>this\<close> is explicit state passing; an uncaught \<^verbatim>\<open>TypeError\<close> is a
  value returned beside the state the handler leaves behind.
\<close>

subsection \<open>The library's vector algebra (three.js r128)\<close>

datatype vec2 = Vector2 (mx: real) (my: real)

datatype vec3 = Vector3 (vx: real) (vy: real) (vz: real)

datatype quat = Quaternion (qx: real) (qy: real) (qz: real) (qw: real)

text \<open>\<^verbatim>\<open>a.add(b)\<close>, \<^verbatim>\<open>v.subVectors(a, b)\<close>, \<^verbatim>\<open>v.multiplyScalar(s)\<close>, \<^verbatim>\<open>a.dot(b)\<close>.\<close>

definition add :: "vec3 \<Rightarrow> vec3 \<Rightarrow> vec3" where
  "add a b = Vector3 (vx a + vx b) (vy a + vy b) (vz a + vz b)"

definition subVectors :: "vec3 \<Rightarrow> vec3 \<Rightarrow> vec3" where
  "subVectors a b = Vector3 (vx a - vx b) (vy a - vy b) (vz a - vz b)"

definition multiplyScalar :: "vec3 \<Rightarrow> real \<Rightarrow> vec3" where
  "multiplyScalar v s = Vector3 (vx v * s) (vy v * s) (vz v * s)"

definition dot :: "vec3 \<Rightarrow> vec3 \<Rightarrow> real" where
  "dot a b = vx a * vx b + vy a * vy b + vz a * vz b"

text \<open>\<^verbatim>\<open>length() { return Math.sqrt(x*x + y*y + z*z) }\<close>\<close>

definition vlength :: "vec3 \<Rightarrow> real" where
  "vlength v = sqrt (vx v * vx v + vy v * vy v + vz v * vz v)"

text \<open>
  \<^verbatim>\<open>divideScalar(s) { return this.multiplyScalar(1 / s) }\<close> and
  \<^verbatim>\<open>normalize() { return this.divideScalar(this.length() || 1) }\<close>: a vector of
  length 0 is divided by 1.
\<close>

definition divideScalar :: "vec3 \<Rightarrow> real \<Rightarrow> vec3" where
  "divideScalar v s = multiplyScalar v (1 / s)"

definition normalize_vec :: "vec3 \<Rightarrow> vec3" where
  "normalize_vec v = divideScalar v (if vlength v = 0 then 1 else vlength v)"

text \<open>\<^verbatim>\<open>a.distanceTo(b)\<close> is the square root of \<^verbatim>\<open>distanceToSquared\<close>.\<close>

definition distanceToSquared :: "vec3 \<Rightarrow> vec3 \<Rightarrow> real" where
  "distanceToSquared a b =
     (let dx = vx a - vx b; dy = vy a - vy b; dz = vz a - vz b
      in dx * dx + dy * dy + dz * dz)"

definition distanceTo :: "vec3 \<Rightarrow> vec3 \<Rightarrow> real" where
  "distanceTo a b = sqrt (distanceToSquared a b)"

text \<open>
  \<^verbatim>\<open>Vector3.applyQuaternion(q)\<close>: the product \<^verbatim>\<open>q * v\<close>, then that product times the
  conjugate of \<^verbatim>\<open>q\<close>, with the library's own intermediate names.
\<close>

definition applyQuaternion :: "vec3 \<Rightarrow> quat \<Rightarrow> vec3" where
  "applyQuaternion v q =
     (let x = vx v; y = vy v; z = vz v;
          ix = qw q * x + qy q * z - qz q * y;
          iy = qw q * y + qz q * x - qx q * z;
          iz = qw q * z + qx q * y - qy q * x;
          iw = - qx q * x - qy q * y - qz q * z
      in Vector3 (ix * qw q + iw * - qx q + iy * - qz q - iz * - qy q)
                 (iy * qw q + iw * - qy q + iz * - qx q - ix * - qz q)
                 (iz * qw q + iw * - qz q + ix * - qy q - iy * - qx q))"

text \<open>
  \<^verbatim>\<open>Quaternion.invert()\<close> of r128 is the conjugate (the library assumes unit length).
\<close>

definition conjugate :: "quat \<Rightarrow> quat" where
  "conjugate q = Quaternion (- qx q) (- qy q) (- qz q) (qw q)"

definition invert :: "quat \<Rightarrow> quat" where
  "invert q = conjugate q"

subsection \<open>Planes and rays\<close>

record plane =
  normal :: vec3
  plane_constant :: real

record ray =
  origin :: vec3
  direction :: vec3

text \<open>
  \<^verbatim>\<open>setFromNormalAndCoplanarPoint(normal, point)\<close> copies the normal and sets
  \<^verbatim>\<open>constant = - point.dot(normal)\<close>.
\<close>

definition setFromNormalAndCoplanarPoint :: "vec3 \<Rightarrow> vec3 \<Rightarrow> plane" where
  "setFromNormalAndCoplanarPoint n point = \<lparr>normal = n, plane_constant = - dot point n\<rparr>"

definition distanceToPoint :: "plane \<Rightarrow> vec3 \<Rightarrow> real" where
  "distanceToPoint p point = dot (normal p) point + plane_constant p"

text \<open>
  \<^verbatim>\<open>Ray.distanceToPlane\<close>: \<^verbatim>\<open>null\<close> (here \<open>None\<close>) for a ray parallel to the plane and
  off it, and for a plane behind the ray's origin.
\<close>

definition distanceToPlane :: "ray \<Rightarrow> plane \<Rightarrow> real option" where
  "distanceToPlane r p =
     (let denominator = dot (normal p) (direction r)
      in if denominator = 0
         then (if distanceToPoint p (origin r) = 0 then Some 0 else None)
         else (let t = - (dot (origin r) (normal p) + plane_constant p) / denominator
               in if t \<ge> 0 then Some t else None))"

text \<open>\<^verbatim>\<open>at(t)\<close> is \<^verbatim>\<open>direction * t + origin\<close>.\<close>

definition ray_at :: "ray \<Rightarrow> real \<Rightarrow> vec3" where
  "ray_at r t = add (multiplyScalar (direction r) t) (origin r)"

definition intersectPlane :: "ray \<Rightarrow> plane \<Rightarrow> vec3 option" where
  "intersectPlane r p =
     (case distanceToPlane r p of None \<Rightarrow> None | Some t \<Rightarrow> Some (ray_at r t))"

subsection \<open>Scene objects\<close>

text \<open>
  An \<^verbatim>\<open>Object3D\<close> as far as the gizmo reads or writes one.  A \<^verbatim>\<open>Group\<close> is an
  \<^verbatim>\<open>Object3D\<close> with a visibility flag and children.
\<close>

record object3d =
  position :: vec3
  quaternion :: quat
  scale :: vec3

datatype axis = X | Y | Z

text \<open>
  The group that \<^verbatim>\<open>_addHandle\<close> builds for one axis: \<^verbatim>\<open>userData = {axis, type:
  'handle', baseColor}\<close>, the colour of the material its stick and head share, and the
  \<^verbatim>\<open>scale.y\<close> that \<^verbatim>\<open>_updateVisuals\<close> flips.  The rotation of the group and the sizes of
  the meshes only matter to the library's ray casting, which is a parameter below.
\<close>

record handle =
  h_axis :: axis
  baseColor :: nat
  color :: nat
  scale_y :: real

text \<open>A child of the gizmo group: the centre sphere (no \<^verbatim>\<open>userData\<close>) or a handle.\<close>

datatype child = Sphere | Handle handle

record group = object3d +
  visible :: bool
  children :: "child list"

subsection \<open>The gizmo's state\<close>

record colors =
  c_x :: nat
  c_y :: nat
  c_z :: nat
  c_active :: nat

text \<open>The default \<^verbatim>\<open>config.colors\<close>: 0xFF2A5F, 0x00E676, 0x2979FF and 0xFFFFFF.\<close>

definition default_colors :: colors where
  "default_colors = \<lparr>c_x = 16722527, c_y = 58998, c_z = 2718207, c_active = 16777215\<rparr>"

text \<open>
  A registered callback is an opaque JavaScript function, named here by a number; calling
  it is an effect of the handler, recorded in the order of the calls.  What a callback
  itself does to the gizmo or the scene is outside the model.
\<close>

type_synonym callback = nat

text \<open>The three keys of \<^verbatim>\<open>this.callbacks\<close>.\<close>

datatype cbname = OnDragStart | OnDragEnd | OnChange

record gizmo =
  config_colors :: colors
  attachedObject :: "object3d option"
  gizmoGroup :: group
  mouse :: vec2
  raycaster_ray :: ray
  isDragging :: bool
  activeAxis :: "axis option"
  dragPlane :: plane
  startIntersection :: vec3
  startPosition :: vec3
  callbacks :: "cbname \<Rightarrow> callback list"

text \<open>
  What the gizmo reads from its surroundings at the time of a call: the camera (its
  \<^verbatim>\<open>position\<close> and the result of \<^verbatim>\<open>getWorldDirection\<close>), the window's size, and the
  library's ray casting: \<^verbatim>\<open>Raycaster.setFromCamera(mouse, camera)\<close> as the ray it
  produces, \<^verbatim>\<open>Raycaster.intersectObjects(gizmoGroup.children, true)\<close> as the hit
  meshes, nearest first.
\<close>

datatype node = SceneNode | GroupNode | SphereMesh | HandleGroup axis
  | StickMesh axis | HeadMesh axis | HitMesh axis

record env =
  camera_position :: vec3
  camera_worldDirection :: vec3
  innerWidth :: real
  innerHeight :: real
  setFromCamera :: "vec2 \<Rightarrow> ray"
  intersectObjects :: "ray \<Rightarrow> node list"

subsection \<open>Construction, attach, detach, on\<close>

text \<open>
  The constructor.  \<^verbatim>\<open>new THREE.Group()\<close> is at the origin, unrotated, of scale 1,
  visible (the library's \<^verbatim>\<open>Object3D\<close> sets \<^verbatim>\<open>visible = true\<close>) and without children;
  a new \<^verbatim>\<open>Ray\<close> starts at the origin and points along \<open>-z\<close>; a new \<^verbatim>\<open>Plane\<close> has
  normal \<open>(1, 0, 0)\<close> and constant 0.
\<close>

definition new_Group :: group where
  "new_Group = \<lparr>position = Vector3 0 0 0, quaternion = Quaternion 0 0 0 1,
                scale = Vector3 1 1 1, visible = True, children = []\<rparr>"

definition SleekGizmoLite :: "colors \<Rightarrow> gizmo" where
  "SleekGizmoLite cfg =
     \<lparr>config_colors = cfg,
      attachedObject = None,
      gizmoGroup = new_Group,
      mouse = Vector2 0 0,
      raycaster_ray = \<lparr>origin = Vector3 0 0 0, direction = Vector3 0 0 (-1)\<rparr>,
      isDragging = False,
      activeAxis = None,
      dragPlane = \<lparr>normal = Vector3 1 0 0, plane_constant = 0\<rparr>,
      startIntersection = Vector3 0 0 0,
      startPosition = Vector3 0 0 0,
      callbacks = (\<lambda>_. [])\<rparr>"

text \<open>
  \<^verbatim>\<open>_addHandle(axis, color, rot)\<close>: a fresh handle group, its material of the given
  colour, its scale the default 1.
\<close>

definition addHandle :: "axis \<Rightarrow> nat \<Rightarrow> child list \<Rightarrow> child list" where
  "addHandle a col cs =
     cs @ [Handle \<lparr>h_axis = a, baseColor = col, color = col, scale_y = 1\<rparr>]"

text \<open>
  \<^verbatim>\<open>_buildGizmo\<close>: the loop removes \<^verbatim>\<open>children[0]\<close> while there is one, then the
  sphere and the three handles are added.
\<close>

fun removeAll :: "child list \<Rightarrow> child list" where
  "removeAll [] = []"
| "removeAll (c # cs) = removeAll cs"

definition buildGizmo :: "gizmo \<Rightarrow> gizmo" where
  "buildGizmo s =
     (let c = config_colors s;
          cs = addHandle Z (c_z c) (addHandle Y (c_y c) (addHandle X (c_x c)
                 (removeAll (children (gizmoGroup s)) @ [Sphere])))
      in s\<lparr>gizmoGroup := (gizmoGroup s)\<lparr>children := cs\<rparr>\<rparr>)"

text \<open>
  \<^verbatim>\<open>_updateVisuals\<close>: the camera's position in the gizmo's frame, and for each handle
  the flip of its \<^verbatim>\<open>scale.y\<close>.
\<close>

definition coord :: "axis \<Rightarrow> vec3 \<Rightarrow> real" where
  "coord a v = (case a of X \<Rightarrow> vx v | Y \<Rightarrow> vy v | Z \<Rightarrow> vz v)"

definition updateChild :: "vec3 \<Rightarrow> child \<Rightarrow> child" where
  "updateChild cam g =
     (case g of
        Sphere \<Rightarrow> Sphere
      | Handle h \<Rightarrow>
          (let a = h_axis h;
               flip = (a = X \<and> vx cam < - 0.2) \<or> (a = Y \<and> vy cam < - 0.2)
                        \<or> (a = Z \<and> vz cam < - 0.2)
           in Handle (h\<lparr>scale_y := (if flip then - 1 else 1)\<rparr>)))"

definition updateVisuals :: "env \<Rightarrow> gizmo \<Rightarrow> gizmo" where
  "updateVisuals e s =
     (let g = gizmoGroup s;
          inv = invert (quaternion g);
          cam = applyQuaternion (subVectors (camera_position e) (position g)) inv
      in s\<lparr>gizmoGroup := g\<lparr>children := map (updateChild cam) (children g)\<rparr>\<rparr>)"

definition update :: "env \<Rightarrow> gizmo \<Rightarrow> gizmo" where
  "update e s =
     (case attachedObject s of
        None \<Rightarrow> s
      | Some obj \<Rightarrow>
          if \<not> visible (gizmoGroup s) then s
          else
            (let dist = distanceTo (camera_position e) (position obj);
                 scale = dist * 0.09;
                 s1 = s\<lparr>gizmoGroup := (gizmoGroup s)
                          \<lparr>position := position obj,
                           quaternion := quaternion obj,
                           scale := Vector3 scale scale scale\<rparr>\<rparr>
             in if \<not> isDragging s1 then updateVisuals e s1 else s1))"

text \<open>\<^verbatim>\<open>attach(object)\<close>; \<open>None\<close> is \<^verbatim>\<open>null\<close>, and \<^verbatim>\<open>!!object\<close> is true of an object.\<close>

definition attach :: "env \<Rightarrow> object3d option \<Rightarrow> gizmo \<Rightarrow> gizmo" where
  "attach e object s =
     update e (buildGizmo
       (s\<lparr>attachedObject := object,
          gizmoGroup := (gizmoGroup s)\<lparr>visible := (object \<noteq> None)\<rparr>\<rparr>))"

definition detach :: "gizmo \<Rightarrow> gizmo" where
  "detach s = s\<lparr>attachedObject := None,
                gizmoGroup := (gizmoGroup s)\<lparr>visible := False\<rparr>\<rparr>"

text \<open>
  \<^verbatim>\<open>on(event, callback)\<close>: the name is \<^verbatim>\<open>'on' + event.charAt(0).toUpperCase() +
  event.slice(1)\<close>, and the callback is pushed when \<^verbatim>\<open>this.callbacks[name]\<close> exists.
  Event names are strings of 8-bit characters; \<^verbatim>\<open>toUpperCase\<close> maps the letters a to z
  to A to Z and leaves every other character.
\<close>

definition toUpperCase :: "char \<Rightarrow> char" where
  "toUpperCase c =
     (case map_of (zip ''abcdefghijklmnopqrstuvwxyz'' ''ABCDEFGHIJKLMNOPQRSTUVWXYZ'') c of
        Some u \<Rightarrow> u
      | None \<Rightarrow> c)"

fun capitalize :: "string \<Rightarrow> string" where
  "capitalize [] = []"
| "capitalize (c # cs) = toUpperCase c # cs"

definition key_of :: "string \<Rightarrow> cbname option" where
  "key_of name =
     (if name = ''onDragStart'' then Some OnDragStart
      else if name = ''onDragEnd'' then Some OnDragEnd
      else if name = ''onChange'' then Some OnChange
      else None)"

definition on :: "string \<Rightarrow> callback \<Rightarrow> gizmo \<Rightarrow> gizmo" where
  "on event cb s =
     (let name = ''on'' @ capitalize event
      in case key_of name of
           None \<Rightarrow> s
         | Some k \<Rightarrow> s\<lparr>callbacks := (callbacks s)(k := callbacks s k @ [cb])\<rparr>)"

subsection \<open>Pointer events and hit testing\<close>

datatype evtype = mousedown | touchstart | mousemove | touchmove | mouseup | touchend

text \<open>
  A DOM event as the handlers read it: its type, \<^verbatim>\<open>clientX\<close> and \<^verbatim>\<open>clientY\<close>, and,
  when the event has a \<^verbatim>\<open>changedTouches\<close> list (a touch event, whose list holds at
  least one touch), the \<^verbatim>\<open>clientX\<close> and \<^verbatim>\<open>clientY\<close> of \<^verbatim>\<open>changedTouches[0]\<close>.
\<close>

record event =
  ev_type :: evtype
  changedTouches :: "(real \<times> real) option"
  clientX :: real
  clientY :: real

definition getEventPos :: "event \<Rightarrow> real \<times> real" where
  "getEventPos e =
     (case changedTouches e of Some t \<Rightarrow> (fst t, snd t) | None \<Rightarrow> (clientX e, clientY e))"

text \<open>
  The objects a hit test can return and their ancestors: the meshes of the gizmo, the
  handle groups, the gizmo group and the scene it was added to.  Only a handle group and
  its hit cylinder carry \<^verbatim>\<open>userData.axis\<close>; the scene is taken to carry none.
\<close>

fun parent :: "node \<Rightarrow> node option" where
  "parent SceneNode = None"
| "parent GroupNode = Some SceneNode"
| "parent SphereMesh = Some GroupNode"
| "parent (HandleGroup a) = Some GroupNode"
| "parent (StickMesh a) = Some (HandleGroup a)"
| "parent (HeadMesh a) = Some (HandleGroup a)"
| "parent (HitMesh a) = Some (HandleGroup a)"

fun userData_axis :: "node \<Rightarrow> axis option" where
  "userData_axis (HandleGroup a) = Some a"
| "userData_axis (HitMesh a) = Some a"
| "userData_axis _ = None"

fun depth :: "node \<Rightarrow> nat" where
  "depth SceneNode = 0"
| "depth GroupNode = 1"
| "depth SphereMesh = 2"
| "depth (HandleGroup a) = 2"
| "depth (StickMesh a) = 3"
| "depth (HeadMesh a) = 3"
| "depth (HitMesh a) = 3"

text \<open>
  \<^verbatim>\<open>while (obj && !obj.userData.axis && obj.parent) obj = obj.parent\<close>
\<close>

function climb :: "node \<Rightarrow> node" where
  "climb obj =
     (case userData_axis obj of
        Some a \<Rightarrow> obj
      | None \<Rightarrow> (case parent obj of None \<Rightarrow> obj | Some p \<Rightarrow> climb p))"
  by pat_completeness auto
termination
  by (relation "measure depth") (auto elim: parent.elims)

subsection \<open>Colours and callbacks\<close>

text \<open>
  \<^verbatim>\<open>_colorRecursive(g, col)\<close> on a handle group: the group has no material, its stick
  and head share one whose colour is set, its hit cylinder carries \<^verbatim>\<open>userData.axis\<close>
  and is skipped.  \<^verbatim>\<open>_highlightAxis\<close> and \<^verbatim>\<open>_resetColors\<close> never reach the sphere,
  which has neither \<^verbatim>\<open>userData.axis\<close> nor \<^verbatim>\<open>userData.baseColor\<close>.
\<close>

definition colorRecursive :: "handle \<Rightarrow> nat \<Rightarrow> handle" where
  "colorRecursive h col = h\<lparr>color := col\<rparr>"

definition highlightAxis :: "axis \<Rightarrow> gizmo \<Rightarrow> gizmo" where
  "highlightAxis a s =
     s\<lparr>gizmoGroup := (gizmoGroup s)\<lparr>children :=
         map (\<lambda>g. case g of
                     Sphere \<Rightarrow> Sphere
                   | Handle h \<Rightarrow>
                       if h_axis h = a
                       then Handle (colorRecursive h (c_active (config_colors s)))
                       else Handle h)
             (children (gizmoGroup s))\<rparr>\<rparr>"

text \<open>\<^verbatim>\<open>if (g.userData.baseColor)\<close> is false of the colour 0.\<close>

definition resetColors :: "gizmo \<Rightarrow> gizmo" where
  "resetColors s =
     s\<lparr>gizmoGroup := (gizmoGroup s)\<lparr>children :=
         map (\<lambda>g. case g of
                     Sphere \<Rightarrow> Sphere
                   | Handle h \<Rightarrow>
                       if baseColor h \<noteq> 0
                       then Handle (colorRecursive h (baseColor h))
                       else Handle h)
             (children (gizmoGroup s))\<rparr>\<rparr>"

datatype effect = Called cbname callback | PreventDefault

datatype error = TypeError

text \<open>
  What a handler leaves behind: the state, the calls it made in order, and the
  exception that ended it, if one did.
\<close>

record outcome =
  state :: gizmo
  effects :: "effect list"
  thrown :: "error option"

text \<open>\<^verbatim>\<open>_trigger(event) { this.callbacks[event].forEach(cb => cb()) }\<close>\<close>

definition trigger :: "cbname \<Rightarrow> gizmo \<Rightarrow> effect list" where
  "trigger k s = map (Called k) (callbacks s k)"

subsection \<open>The drag\<close>

text \<open>
  \<^verbatim>\<open>_getAxisVector(axis)\<close>: the unit vector of the axis, rotated by the attached
  object's quaternion.  An axis that is none of \<^verbatim>\<open>'x'\<close>, \<^verbatim>\<open>'y'\<close>, \<^verbatim>\<open>'z'\<close> (\<^verbatim>\<open>null\<close>,
  here \<open>None\<close>) gives the zero vector.
\<close>

definition axisUnit :: "axis option \<Rightarrow> vec3" where
  "axisUnit a = Vector3 (if a = Some X then 1 else 0) (if a = Some Y then 1 else 0)
                        (if a = Some Z then 1 else 0)"

definition getAxisVector :: "axis option \<Rightarrow> object3d \<Rightarrow> vec3" where
  "getAxisVector a obj = applyQuaternion (axisUnit a) (quaternion obj)"

text \<open>
  \<^verbatim>\<open>_startDrag(axis, x, y)\<close>.  The intersection buffer is a new \<^verbatim>\<open>Vector3\<close>, so it
  stays \<open>(0, 0, 0)\<close> when the ray misses the plane.  Reading \<^verbatim>\<open>position\<close> of a
  \<^verbatim>\<open>null\<close> attached object throws, after the callbacks have run.
\<close>

definition startDrag :: "env \<Rightarrow> axis \<Rightarrow> gizmo \<Rightarrow> outcome" where
  "startDrag e a s =
     (let s1 = highlightAxis a (s\<lparr>isDragging := True, activeAxis := Some a\<rparr>);
          fx = trigger OnDragStart s1
      in case attachedObject s1 of
           None \<Rightarrow> \<lparr>state = s1, effects = fx, thrown = Some TypeError\<rparr>
         | Some obj \<Rightarrow>
             (let pl = setFromNormalAndCoplanarPoint (camera_worldDirection e) (position obj);
                  intersection = (case intersectPlane (raycaster_ray s1) pl of
                                    None \<Rightarrow> Vector3 0 0 0 | Some p \<Rightarrow> p)
              in \<lparr>state = s1\<lparr>dragPlane := pl, startPosition := position obj,
                               startIntersection := intersection\<rparr>,
                  effects = fx, thrown = None\<rparr>))"

text \<open>The pointer in normalised device coordinates, as both handlers compute it.\<close>

definition pointer :: "env \<Rightarrow> event \<Rightarrow> vec2" where
  "pointer e ev =
     (let (x, y) = getEventPos ev
      in Vector2 ((x / innerWidth e) * 2 - 1) (- (y / innerHeight e) * 2 + 1))"

definition handleDown :: "env \<Rightarrow> event \<Rightarrow> gizmo \<Rightarrow> outcome" where
  "handleDown e ev s =
     (if attachedObject s = None \<or> \<not> visible (gizmoGroup s)
      then \<lparr>state = s, effects = [], thrown = None\<rparr>
      else
        (let m = pointer e ev;
             r = setFromCamera e m;
             s1 = s\<lparr>mouse := m, raycaster_ray := r\<rparr>
         in case intersectObjects e r of
              [] \<Rightarrow> \<lparr>state = s1, effects = [], thrown = None\<rparr>
            | hit # _ \<Rightarrow>
                (case userData_axis (climb hit) of
                   None \<Rightarrow> \<lparr>state = s1, effects = [], thrown = None\<rparr>
                 | Some a \<Rightarrow>
                     (let pd = (if ev_type ev = touchstart then [PreventDefault] else []);
                          out = startDrag e a s1
                      in out\<lparr>effects := pd @ effects out\<rparr>))))"

text \<open>
  \<^verbatim>\<open>_handleMove(e)\<close>.  \<^verbatim>\<open>_getAxisVector\<close> reads \<^verbatim>\<open>this.attachedObject.quaternion\<close>,
  which throws when nothing is attached; \<^verbatim>\<open>onChange\<close> is triggered after the
  \<^verbatim>\<open>if\<close>.
\<close>

definition handleMove :: "env \<Rightarrow> event \<Rightarrow> gizmo \<Rightarrow> outcome" where
  "handleMove e ev s =
     (if \<not> isDragging s then \<lparr>state = s, effects = [], thrown = None\<rparr>
      else
        (let pd = (if ev_type ev = touchmove then [PreventDefault] else []);
             m = pointer e ev;
             r = setFromCamera e m;
             s1 = s\<lparr>mouse := m, raycaster_ray := r\<rparr>
         in case intersectPlane r (dragPlane s1) of
              None \<Rightarrow> \<lparr>state = s1, effects = pd @ trigger OnChange s1, thrown = None\<rparr>
            | Some current \<Rightarrow>
                (case attachedObject s1 of
                   None \<Rightarrow> \<lparr>state = s1, effects = pd, thrown = Some TypeError\<rparr>
                 | Some obj \<Rightarrow>
                     (let delta = subVectors current (startIntersection s1);
                          axisVec = normalize_vec (getAxisVector (activeAxis s1) obj);
                          amount = dot delta axisVec;
                          s2 = s1\<lparr>attachedObject := Some (obj\<lparr>position :=
                                 add (startPosition s1) (multiplyScalar axisVec amount)\<rparr>)\<rparr>
                      in \<lparr>state = s2, effects = pd @ trigger OnChange s2,
                          thrown = None\<rparr>))))"

definition handleUp :: "gizmo \<Rightarrow> outcome" where
  "handleUp s =
     (if isDragging s
      then (let s1 = resetColors (s\<lparr>isDragging := False, activeAxis := None\<rparr>)
            in \<lparr>state = s1, effects = trigger OnDragEnd s1, thrown = None\<rparr>)
      else \<lparr>state = s, effects = [], thrown = None\<rparr>)"

text \<open>
  The listeners of \<^verbatim>\<open>_initEvents\<close>: which handler an event of each type reaches.  An
  exception ends the handler, not the page: the next event finds the state it left.
\<close>

definition dispatch :: "env \<Rightarrow> event \<Rightarrow> gizmo \<Rightarrow> outcome" where
  "dispatch e ev s =
     (case ev_type ev of
        mousedown \<Rightarrow> handleDown e ev s
      | touchstart \<Rightarrow> handleDown e ev s
      | mousemove \<Rightarrow> handleMove e ev s
      | touchmove \<Rightarrow> handleMove e ev s
      | mouseup \<Rightarrow> handleUp s
      | touchend \<Rightarrow> handleUp s)"

fun run :: "(env \<times> event) list \<Rightarrow> gizmo \<Rightarrow> gizmo" where
  "run [] s = s"
| "run ((e, ev) # evs) s = run evs (state (dispatch e ev s))"

subsection \<open>Notions the properties are stated with\<close>

text \<open>An object with its ancestors in the scene graph, nearest first.\<close>

function ancestors :: "node \<Rightarrow> node list" where
  "ancestors obj = obj # (case parent obj of None \<Rightarrow> [] | Some p \<Rightarrow> ancestors p)"
  by pat_completeness auto
termination
  by (relation "measure depth") (auto elim: parent.elims)

text \<open>The events that reach \<^verbatim>\<open>_handleMove\<close>.\<close>

definition is_move :: "env \<times> event \<Rightarrow> bool" where
  "is_move p = (ev_type (snd p) = mousemove \<or> ev_type (snd p) = touchmove)"

text \<open>The invariant of the visibility flag: the group is visible exactly when an object is attached.\<close>

definition visible_iff_attached :: "gizmo \<Rightarrow> bool" where
  "visible_iff_attached s = (visible (gizmoGroup s) = (attachedObject s \<noteq> None))"

text \<open>
  The names \<^verbatim>\<open>on\<close> recognises, as the interface describes them: \<^verbatim>\<open>dragStart\<close>,
  \<^verbatim>\<open>dragEnd\<close> and \<^verbatim>\<open>change\<close>, with the first letter in either case.
\<close>

definition recognized :: "string \<Rightarrow> cbname option" where
  "recognized ev =
     (if ev = ''dragStart'' \<or> ev = ''DragStart'' then Some OnDragStart
      else if ev = ''dragEnd'' \<or> ev = ''DragEnd'' then Some OnDragEnd
      else if ev = ''change'' \<or> ev = ''Change'' then Some OnChange
      else None)"

text \<open>The camera's position in the frame of an object: translated, then rotated back.\<close>

definition localCamera :: "env \<Rightarrow> object3d \<Rightarrow> vec3" where
  "localCamera e obj =
     applyQuaternion (subVectors (camera_position e) (position obj))
       (conjugate (quaternion obj))"

text \<open>
  The drag rule in coordinates, as the interface words it.  The unit vector of an axis
  turned by a quaternion \<open>q\<close>: the column of the matrix of \<open>v \<mapsto> q v q*\<close>, which for a
  quaternion that is not normalised is the turned axis times \<open>|q|\<^sup>2\<close>.
\<close>

definition rotated_axis :: "axis \<Rightarrow> quat \<Rightarrow> vec3" where
  "rotated_axis a q =
     (case a of
        X \<Rightarrow> Vector3 ((qw q)\<^sup>2 + (qx q)\<^sup>2 - (qy q)\<^sup>2 - (qz q)\<^sup>2)
                     (2 * (qx q * qy q + qw q * qz q))
                     (2 * (qx q * qz q - qw q * qy q))
      | Y \<Rightarrow> Vector3 (2 * (qx q * qy q - qw q * qz q))
                     ((qw q)\<^sup>2 - (qx q)\<^sup>2 + (qy q)\<^sup>2 - (qz q)\<^sup>2)
                     (2 * (qy q * qz q + qw q * qx q))
      | Z \<Rightarrow> Vector3 (2 * (qx q * qz q + qw q * qy q))
                     (2 * (qy q * qz q - qw q * qx q))
                     ((qw q)\<^sup>2 - (qx q)\<^sup>2 - (qy q)\<^sup>2 + (qz q)\<^sup>2))"

text \<open>That vector divided by its Euclidean length.\<close>

definition unit_axis :: "axis \<Rightarrow> quat \<Rightarrow> vec3" where
  "unit_axis a q =
     (let w = rotated_axis a q;
          n = sqrt ((vx w)\<^sup>2 + (vy w)\<^sup>2 + (vz w)\<^sup>2)
      in Vector3 (vx w / n) (vy w / n) (vz w / n))"

text \<open>\<open>start + ((p - p0) . u) u\<close>: the motion from \<open>p0\<close> to \<open>p\<close> projected onto \<open>u\<close>.\<close>

definition projected :: "vec3 \<Rightarrow> vec3 \<Rightarrow> vec3 \<Rightarrow> vec3 \<Rightarrow> vec3" where
  "projected start u p0 p =
     (let t = (vx p - vx p0) * vx u + (vy p - vy p0) * vy u + (vz p - vz p0) * vz u
      in Vector3 (vx start + t * vx u) (vy start + t * vy u) (vz start + t * vz u))"

text \<open>A point of a ray, and a point of the plane through \<open>c\<close> with normal \<open>n\<close>.\<close>

definition on_ray :: "ray \<Rightarrow> vec3 \<Rightarrow> bool" where
  "on_ray r x =
     (\<exists>t\<ge>0. vx x = vx (origin r) + t * vx (direction r) \<and>
             vy x = vy (origin r) + t * vy (direction r) \<and>
             vz x = vz (origin r) + t * vz (direction r))"

definition on_plane :: "vec3 \<Rightarrow> vec3 \<Rightarrow> vec3 \<Rightarrow> bool" where
  "on_plane n c x =
     (vx n * (vx x - vx c) + vy n * (vy x - vy c) + vz n * (vz x - vz c) = 0)"

subsection \<open>A concrete scene\<close>

text \<open>
  A window of 800 by 600 pixels and a camera at \<open>(0, 0, 5)\<close> that looks along \<open>-z\<close> and
  casts parallel rays, 4 units to each side and 3 units up and down around its axis.
  Of the hit test the scene fixes the one ray a press below uses: the ray through the
  point \<open>grab\<close> of the plane \<open>z = 0\<close>, a point of the X handle's axis, hits the
  handle's hit cylinder and then its stick.  No press below uses another ray of this
  camera, and the scene gives them no hit.
\<close>

definition view :: "real \<times> real \<Rightarrow> env" where
  "view grab =
     \<lparr>camera_position = Vector3 0 0 5,
      camera_worldDirection = Vector3 0 0 (- 1),
      innerWidth = 800,
      innerHeight = 600,
      setFromCamera = (\<lambda>m. \<lparr>origin = Vector3 (4 * mx m) (3 * my m) 5,
                               direction = Vector3 0 0 (- 1)\<rparr>),
      intersectObjects = (\<lambda>r. if vx (origin r) = fst grab \<and> vy (origin r) = snd grab
                               then [HitMesh X, StickMesh X] else [])\<rparr>"

text \<open>
  The same window after the camera has turned round: its rays leave the scene and hit
  nothing.
\<close>

definition view_away :: env where
  "view_away =
     \<lparr>camera_position = Vector3 0 0 5,
      camera_worldDirection = Vector3 0 0 1,
      innerWidth = 800,
      innerHeight = 600,
      setFromCamera = (\<lambda>m. \<lparr>origin = Vector3 (- 4 * mx m) (3 * my m) 5,
                               direction = Vector3 0 0 1\<rparr>),
      intersectObjects = (\<lambda>r. [])\<rparr>"

text \<open>
  The camera at \<open>(-5, 0, 0)\<close>, on the negative side of the X axis, looking along \<open>-x\<close>,
  away from the origin: its rays hit nothing.
\<close>

definition view_left :: env where
  "view_left =
     \<lparr>camera_position = Vector3 (- 5) 0 0,
      camera_worldDirection = Vector3 (- 1) 0 0,
      innerWidth = 800,
      innerHeight = 600,
      setFromCamera = (\<lambda>m. \<lparr>origin = Vector3 (- 5) (3 * my m) (- 4 * mx m),
                               direction = Vector3 (- 1) 0 0\<rparr>),
      intersectObjects = (\<lambda>r. [])\<rparr>"

text \<open>
  The camera at \<open>(3, 4, 0)\<close>, looking at the origin along \<open>(-3/5, -4/5, 0)\<close>.  The ray
  through the centre of the window runs in the plane \<open>z = 0\<close> between the X and the Y
  handle of an unrotated gizmo at the origin, further than their hit cylinders reach
  from their axes, and below the Z handle: it hits the centre sphere and nothing else.
  No press below uses another ray of this camera.
\<close>

definition view_side :: env where
  "view_side =
     \<lparr>camera_position = Vector3 3 4 0,
      camera_worldDirection = Vector3 (- 3/5) (- 4/5) 0,
      innerWidth = 800,
      innerHeight = 600,
      setFromCamera = (\<lambda>m. \<lparr>origin = Vector3 (3 - 16/5 * mx m) (4 + 12/5 * mx m) (3 * my m),
                               direction = Vector3 (- 3/5) (- 4/5) 0\<rparr>),
      intersectObjects = (\<lambda>r. if origin r = Vector3 3 4 0 then [SphereMesh] else [])\<rparr>"

definition mouse_event :: "evtype \<Rightarrow> real \<Rightarrow> real \<Rightarrow> event" where
  "mouse_event t x y = \<lparr>ev_type = t, changedTouches = None, clientX = x, clientY = y\<rparr>"

text \<open>A cube at the origin, unrotated; and the same cube turned about the Z axis.\<close>

definition cube :: object3d where
  "cube = \<lparr>position = Vector3 0 0 0, quaternion = Quaternion 0 0 0 1,
           scale = Vector3 1 1 1\<rparr>"

definition tilted :: object3d where
  "tilted = cube\<lparr>quaternion := Quaternion 0 0 (3/5) (4/5)\<rparr>"

text \<open>
  The cube with the quaternion \<open>(0, 0, 1, 1)\<close>, which is not normalised: a quarter turn
  about Z times \<open>\<surd>2\<close>.
\<close>

definition skewed :: object3d where
  "skewed = cube\<lparr>quaternion := Quaternion 0 0 1 1\<rparr>"

text \<open>A gizmo with one \<^verbatim>\<open>change\<close> callback, attached to the cube.\<close>

definition fresh :: gizmo where
  "fresh = on ''change'' 7 (SleekGizmoLite default_colors)"

definition on_cube :: gizmo where
  "on_cube = attach (view (3/5, 0)) (Some cube) fresh"

text \<open>
  The X handle of the cube grabbed at \<open>(3/5, 0, 0)\<close>: with the group scaled by 0.45 the
  handle reaches from 0.495 to 0.855 along the X axis.
\<close>

definition grabbed :: gizmo where
  "grabbed = state (dispatch (view (3/5, 0)) (mouse_event mousedown 460 300) on_cube)"

text \<open>The same drag after \<^verbatim>\<open>detach()\<close> was called in the middle of it.\<close>

definition dropped :: gizmo where
  "dropped = detach grabbed"

text \<open>
  The X handle of the turned cube grabbed at \<open>(7/40, 3/5, 0)\<close>, at 0.625 along the
  turned axis \<open>(7/25, 24/25, 0)\<close>.
\<close>

definition on_tilted :: gizmo where
  "on_tilted = attach (view (7/40, 3/5)) (Some tilted) fresh"

definition grabbed_tilted :: gizmo where
  "grabbed_tilted =
     state (dispatch (view (7/40, 3/5)) (mouse_event mousedown (835/2) 240) on_tilted)"

text \<open>
  The gizmo attached to the cube of the quaternion \<open>(0, 0, 1, 1)\<close>.  The library composes
  the group's matrix from that quaternion as it is, which puts the axis of the X handle
  along \<open>(-0.45, 0.9, 0)\<close>; the press below grabs it at \<open>(-3/5, 6/5, 0)\<close>.
\<close>

definition on_skewed :: gizmo where
  "on_skewed = attach (view (- 3/5, 6/5)) (Some skewed) fresh"

text \<open>The cube attached while the camera was on the left, then detached.\<close>

definition left_behind :: gizmo where
  "left_behind = detach (attach view_left (Some cube) fresh)"

section \<open>Properties\<close>

text \<open>
  The equations of \<open>climb\<close> and \<open>ancestors\<close> rewrite a call into a call: they are
  applied by hand.
\<close>

declare climb.simps [simp del] ancestors.simps [simp del]

subsection \<open>Fields the operations leave alone\<close>

lemma updateVisuals_frame [simp]:
  "attachedObject (updateVisuals e s) = attachedObject s"
  "visible (gizmoGroup (updateVisuals e s)) = visible (gizmoGroup s)"
  "isDragging (updateVisuals e s) = isDragging s"
  "activeAxis (updateVisuals e s) = activeAxis s"
  "callbacks (updateVisuals e s) = callbacks s"
  "position (gizmoGroup (updateVisuals e s)) = position (gizmoGroup s)"
  "quaternion (gizmoGroup (updateVisuals e s)) = quaternion (gizmoGroup s)"
  "scale (gizmoGroup (updateVisuals e s)) = scale (gizmoGroup s)"
  by (simp_all add: updateVisuals_def Let_def)

lemma update_frame [simp]:
  "attachedObject (update e s) = attachedObject s"
  "visible (gizmoGroup (update e s)) = visible (gizmoGroup s)"
  "isDragging (update e s) = isDragging s"
  "activeAxis (update e s) = activeAxis s"
  "callbacks (update e s) = callbacks s"
  by (simp_all add: update_def Let_def split: option.splits)

lemma buildGizmo_frame [simp]:
  "attachedObject (buildGizmo s) = attachedObject s"
  "visible (gizmoGroup (buildGizmo s)) = visible (gizmoGroup s)"
  "isDragging (buildGizmo s) = isDragging s"
  "activeAxis (buildGizmo s) = activeAxis s"
  "callbacks (buildGizmo s) = callbacks s"
  by (simp_all add: buildGizmo_def Let_def)

lemma highlightAxis_frame [simp]:
  "attachedObject (highlightAxis a s) = attachedObject s"
  "visible (gizmoGroup (highlightAxis a s)) = visible (gizmoGroup s)"
  "isDragging (highlightAxis a s) = isDragging s"
  "activeAxis (highlightAxis a s) = activeAxis s"
  "callbacks (highlightAxis a s) = callbacks s"
  "raycaster_ray (highlightAxis a s) = raycaster_ray s"
  by (simp_all add: highlightAxis_def)

lemma resetColors_frame [simp]:
  "attachedObject (resetColors s) = attachedObject s"
  "visible (gizmoGroup (resetColors s)) = visible (gizmoGroup s)"
  "isDragging (resetColors s) = isDragging s"
  "activeAxis (resetColors s) = activeAxis s"
  "callbacks (resetColors s) = callbacks s"
  by (simp_all add: resetColors_def)

lemma attach_fields [simp]:
  "attachedObject (attach e obj s) = obj"
  "visible (gizmoGroup (attach e obj s)) = (obj \<noteq> None)"
  "isDragging (attach e obj s) = isDragging s"
  "activeAxis (attach e obj s) = activeAxis s"
  "callbacks (attach e obj s) = callbacks s"
  by (simp_all add: attach_def)

lemma startDrag_fields:
  "attachedObject (state (startDrag e a s)) = attachedObject s"
  "visible (gizmoGroup (state (startDrag e a s))) = visible (gizmoGroup s)"
  "callbacks (state (startDrag e a s)) = callbacks s"
  by (simp_all add: startDrag_def Let_def split: option.splits)

lemma handleDown_frame:
  "attachedObject (state (handleDown e ev s)) = attachedObject s"
  "visible (gizmoGroup (state (handleDown e ev s))) = visible (gizmoGroup s)"
  "callbacks (state (handleDown e ev s)) = callbacks s"
  by (simp_all add: handleDown_def Let_def startDrag_fields split: list.splits option.splits)

lemma handleMove_frame:
  "gizmoGroup (state (handleMove e ev s)) = gizmoGroup s"
  "callbacks (state (handleMove e ev s)) = callbacks s"
  "isDragging (state (handleMove e ev s)) = isDragging s"
  "activeAxis (state (handleMove e ev s)) = activeAxis s"
  "dragPlane (state (handleMove e ev s)) = dragPlane s"
  "startPosition (state (handleMove e ev s)) = startPosition s"
  "startIntersection (state (handleMove e ev s)) = startIntersection s"
  "(attachedObject (state (handleMove e ev s)) = None) = (attachedObject s = None)"
  "map_option quaternion (attachedObject (state (handleMove e ev s))) =
     map_option quaternion (attachedObject s)"
  "map_option scale (attachedObject (state (handleMove e ev s))) =
     map_option scale (attachedObject s)"
  by (simp_all add: handleMove_def Let_def split: option.splits)

lemma handleUp_frame:
  "attachedObject (state (handleUp s)) = attachedObject s"
  "visible (gizmoGroup (state (handleUp s))) = visible (gizmoGroup s)"
  "callbacks (state (handleUp s)) = callbacks s"
  by (simp_all add: handleUp_def Let_def)

lemma dispatch_object_frame:
  "map_option quaternion (attachedObject (state (dispatch e ev s))) =
     map_option quaternion (attachedObject s)"
  "map_option scale (attachedObject (state (dispatch e ev s))) =
     map_option scale (attachedObject s)"
  by (simp_all add: dispatch_def handleDown_frame handleMove_frame handleUp_frame
      split: evtype.splits)

subsection \<open>The walk up the scene graph\<close>

lemma climb_tagged: "userData_axis obj = Some a \<Longrightarrow> climb obj = obj"
  by (subst climb.simps) simp

lemma climb_root: "userData_axis obj = None \<Longrightarrow> parent obj = None \<Longrightarrow> climb obj = obj"
  by (subst climb.simps) simp

lemma climb_parent:
  "userData_axis obj = None \<Longrightarrow> parent obj = Some p \<Longrightarrow> climb obj = climb p"
  by (subst climb.simps) simp

lemma self_in_ancestors: "obj \<in> set (ancestors obj)"
  by (subst ancestors.simps) simp

lemma parent_ancestors: "parent obj = Some p \<Longrightarrow> set (ancestors p) \<subseteq> set (ancestors obj)"
  by (subst (2) ancestors.simps) auto

lemma climb_in_ancestors: "climb n \<in> set (ancestors n)"
proof (induction n rule: climb.induct)
  case (1 obj)
  show ?case
  proof (cases "userData_axis obj")
    case (Some a)
    then show ?thesis by (simp add: climb_tagged self_in_ancestors)
  next
    case None
    show ?thesis
    proof (cases "parent obj")
      case root: None
      with None show ?thesis by (simp add: climb_root self_in_ancestors)
    next
      case (Some p)
      from None Some have "climb p \<in> set (ancestors p)" by (rule "1.IH")
      with parent_ancestors[OF Some] show ?thesis
        unfolding climb_parent[OF None Some] by blast
    qed
  qed
qed

lemma ancestors_SphereMesh: "ancestors SphereMesh = [SphereMesh, GroupNode, SceneNode]"
  by (simp add: ancestors.simps)

subsection \<open>The concrete scene, evaluated\<close>

lemma sqrt_25: "sqrt 25 = 5"
  using real_sqrt_abs[of 5] by simp

lemmas vec_defs = add_def subVectors_def multiplyScalar_def dot_def vlength_def divideScalar_def
  normalize_vec_def distanceToSquared_def distanceTo_def applyQuaternion_def conjugate_def
  invert_def setFromNormalAndCoplanarPoint_def distanceToPoint_def distanceToPlane_def
  ray_at_def intersectPlane_def axisUnit_def getAxisVector_def coord_def

lemma fresh_eval:
  "fresh = (SleekGizmoLite default_colors)\<lparr>callbacks := (\<lambda>_. [])(OnChange := [7])\<rparr>"
  by (simp add: fresh_def on_def key_of_def toUpperCase_def SleekGizmoLite_def)

lemma on_cube_eval:
  "on_cube = fresh
     \<lparr>attachedObject := Some cube,
      gizmoGroup := \<lparr>position = Vector3 0 0 0, quaternion = Quaternion 0 0 0 1,
                     scale = Vector3 (9/20) (9/20) (9/20), visible = True,
                     children = [Sphere,
                       Handle \<lparr>h_axis = X, baseColor = 16722527, color = 16722527, scale_y = 1\<rparr>,
                       Handle \<lparr>h_axis = Y, baseColor = 58998, color = 58998, scale_y = 1\<rparr>,
                       Handle \<lparr>h_axis = Z, baseColor = 2718207, color = 2718207, scale_y = 1\<rparr>]\<rparr>\<rparr>"
  by (simp add: on_cube_def attach_def fresh_eval SleekGizmoLite_def new_Group_def buildGizmo_def
      addHandle_def default_colors_def update_def updateVisuals_def updateChild_def view_def
      cube_def vec_defs Let_def sqrt_25)

lemma on_cube_fields:
  "attachedObject on_cube = Some cube" "visible (gizmoGroup on_cube)" "\<not> isDragging on_cube"
  "activeAxis on_cube = None" "callbacks on_cube OnChange = [7]"
  by (simp_all add: on_cube_eval fresh_eval SleekGizmoLite_def)

lemma view_fields:
  "camera_position (view g) = Vector3 0 0 5"
  "camera_worldDirection (view g) = Vector3 0 0 (- 1)"
  "setFromCamera (view g) m =
     \<lparr>origin = Vector3 (4 * mx m) (3 * my m) 5, direction = Vector3 0 0 (- 1)\<rparr>"
  "intersectObjects (view g) r =
     (if vx (origin r) = fst g \<and> vy (origin r) = snd g then [HitMesh X, StickMesh X] else [])"
  "setFromCamera view_away m =
     \<lparr>origin = Vector3 (- 4 * mx m) (3 * my m) 5, direction = Vector3 0 0 1\<rparr>"
  "camera_position view_left = Vector3 (- 5) 0 0"
  "setFromCamera view_side m =
     \<lparr>origin = Vector3 (3 - 16/5 * mx m) (4 + 12/5 * mx m) (3 * my m),
      direction = Vector3 (- 3/5) (- 4/5) 0\<rparr>"
  "intersectObjects view_side r = (if origin r = Vector3 3 4 0 then [SphereMesh] else [])"
  by (simp_all add: view_def view_away_def view_left_def view_side_def)

lemma pointer_mouse:
  "pointer (view g) (mouse_event t x y) = Vector2 (x / 800 * 2 - 1) (- (y / 600) * 2 + 1)"
  "pointer view_away (mouse_event t x y) = Vector2 (x / 800 * 2 - 1) (- (y / 600) * 2 + 1)"
  "pointer view_side (mouse_event t x y) = Vector2 (x / 800 * 2 - 1) (- (y / 600) * 2 + 1)"
  by (simp_all add: pointer_def getEventPos_def mouse_event_def view_def view_away_def
      view_side_def)

lemma dispatch_mouse:
  "dispatch e (mouse_event mousedown x y) s = handleDown e (mouse_event mousedown x y) s"
  "dispatch e (mouse_event mousemove x y) s = handleMove e (mouse_event mousemove x y) s"
  "dispatch e (mouse_event mouseup x y) s = handleUp s"
  by (simp_all add: dispatch_def mouse_event_def)

lemma grabbed_eval:
  "grabbed = on_cube
     \<lparr>gizmoGroup := (gizmoGroup on_cube)\<lparr>children := [Sphere,
                       Handle \<lparr>h_axis = X, baseColor = 16722527, color = 16777215, scale_y = 1\<rparr>,
                       Handle \<lparr>h_axis = Y, baseColor = 58998, color = 58998, scale_y = 1\<rparr>,
                       Handle \<lparr>h_axis = Z, baseColor = 2718207, color = 2718207, scale_y = 1\<rparr>]\<rparr>,
      mouse := Vector2 (3/20) 0,
      raycaster_ray := \<lparr>origin = Vector3 (3/5) 0 5, direction = Vector3 0 0 (- 1)\<rparr>,
      isDragging := True,
      activeAxis := Some X,
      dragPlane := \<lparr>normal = Vector3 0 0 (- 1), plane_constant = 0\<rparr>,
      startIntersection := Vector3 (3/5) 0 0,
      startPosition := Vector3 0 0 0\<rparr>"
  apply (simp add: grabbed_def dispatch_mouse handleDown_def pointer_mouse on_cube_fields Let_def)
  apply (simp add: mouse_event_def on_cube_eval fresh_eval SleekGizmoLite_def view_def
      startDrag_def highlightAxis_def colorRecursive_def default_colors_def cube_def vec_defs
      Let_def trigger_def climb_tagged)
  done

lemma grabbed_fields:
  "attachedObject grabbed = Some cube" "isDragging grabbed" "activeAxis grabbed = Some X"
  "dragPlane grabbed = \<lparr>normal = Vector3 0 0 (- 1), plane_constant = 0\<rparr>"
  "startIntersection grabbed = Vector3 (3/5) 0 0" "startPosition grabbed = Vector3 0 0 0"
  "callbacks grabbed OnChange = [7]"
  by (simp_all add: grabbed_eval on_cube_fields)

subsection \<open>Registering callbacks\<close>

lemma toUpperCase_D: "toUpperCase c = CHR ''D'' \<longleftrightarrow> c = CHR ''d'' \<or> c = CHR ''D''"
  by (simp add: toUpperCase_def)

lemma toUpperCase_C: "toUpperCase c = CHR ''C'' \<longleftrightarrow> c = CHR ''c'' \<or> c = CHR ''C''"
  by (simp add: toUpperCase_def)

lemma capitalize_eq_Cons:
  "capitalize ev = d # rest \<longleftrightarrow> (\<exists>c. ev = c # rest \<and> toUpperCase c = d)"
  by (cases ev) auto

lemma key_DragStart:
  "key_of (''on'' @ capitalize ev) = Some OnDragStart \<longleftrightarrow>
     ev = ''dragStart'' \<or> ev = ''DragStart''"
  by (auto simp: key_of_def capitalize_eq_Cons toUpperCase_D)

lemma key_DragEnd:
  "key_of (''on'' @ capitalize ev) = Some OnDragEnd \<longleftrightarrow> ev = ''dragEnd'' \<or> ev = ''DragEnd''"
  by (auto simp: key_of_def capitalize_eq_Cons toUpperCase_D)

lemma key_Change:
  "key_of (''on'' @ capitalize ev) = Some OnChange \<longleftrightarrow> ev = ''change'' \<or> ev = ''Change''"
  by (auto simp: key_of_def capitalize_eq_Cons toUpperCase_C toUpperCase_D)

lemma key_of_recognized: "key_of (''on'' @ capitalize ev) = recognized ev"
proof (cases "key_of (''on'' @ capitalize ev)")
  case None
  then show ?thesis using key_DragStart[of ev] key_DragEnd[of ev] key_Change[of ev]
    by (auto simp: recognized_def)
next
  case (Some k)
  then show ?thesis using key_DragStart[of ev] key_DragEnd[of ev] key_Change[of ev]
    by (cases k) (auto simp: recognized_def)
qed

text \<open>
  Claim C10.  A call \<^verbatim>\<open>on(event, callback)\<close> whose event is none of \<^verbatim>\<open>dragStart\<close>,
  \<^verbatim>\<open>dragEnd\<close> and \<^verbatim>\<open>change\<close> (the first letter in either case) leaves the gizmo as it
  was; for each of the three names the callback is appended to the list of that name,
  and nothing else changes.
\<close>

theorem on_registers:
  "(ev \<notin> {''dragStart'', ''DragStart'', ''dragEnd'', ''DragEnd'', ''change'', ''Change''}
      \<longrightarrow> on ev cb s = s) \<and>
   (ev \<in> {''dragStart'', ''DragStart''}
      \<longrightarrow> on ev cb s =
            s\<lparr>callbacks := (callbacks s)(OnDragStart := callbacks s OnDragStart @ [cb])\<rparr>) \<and>
   (ev \<in> {''dragEnd'', ''DragEnd''}
      \<longrightarrow> on ev cb s =
            s\<lparr>callbacks := (callbacks s)(OnDragEnd := callbacks s OnDragEnd @ [cb])\<rparr>) \<and>
   (ev \<in> {''change'', ''Change''}
      \<longrightarrow> on ev cb s =
            s\<lparr>callbacks := (callbacks s)(OnChange := callbacks s OnChange @ [cb])\<rparr>)"
  by (simp only: on_def Let_def key_of_recognized) (auto simp: recognized_def)

theorem on_registers_witness:
  "on ''drag'' 3 fresh = fresh \<and>
   on ''dragStart'' 3 fresh = fresh\<lparr>callbacks := (callbacks fresh)(OnDragStart := [3])\<rparr> \<and>
   on ''DragEnd'' 3 fresh = fresh\<lparr>callbacks := (callbacks fresh)(OnDragEnd := [3])\<rparr> \<and>
   on ''change'' 3 fresh = fresh\<lparr>callbacks := (callbacks fresh)(OnChange := [7, 3])\<rparr>"
proof -
  have f: "callbacks fresh = (\<lambda>_. [])(OnChange := [7])"
    by (simp add: fresh_eval)
  show ?thesis
    using on_registers[of "''drag''" 3 fresh] on_registers[of "''dragStart''" 3 fresh]
      on_registers[of "''DragEnd''" 3 fresh] on_registers[of "''change''" 3 fresh]
    by (simp add: f)
qed

subsection \<open>The visibility flag\<close>

text \<open>
  Claim C9, as the spec states it: the group is visible exactly when an object is
  attached, from construction on.  It fails for the gizmo the constructor returns: the
  new group is visible and nothing is attached.
\<close>

theorem visible_after_construction_counterexample:
  "\<not> visible_iff_attached (SleekGizmoLite default_colors)"
  by (simp add: visible_iff_attached_def SleekGizmoLite_def new_Group_def)

text \<open>
  Claim C9, amended: every \<^verbatim>\<open>attach\<close> and every \<^verbatim>\<open>detach\<close> makes the group visible
  exactly when an object is attached, and \<^verbatim>\<open>update\<close>, \<^verbatim>\<open>on\<close> and the three event
  handlers keep it so.
\<close>

theorem visible_iff_attached_kept:
  "visible_iff_attached (attach e obj s) \<and>
   visible_iff_attached (detach s) \<and>
   (visible_iff_attached s \<longrightarrow>
      visible_iff_attached (update e s) \<and>
      visible_iff_attached (on name cb s) \<and>
      visible_iff_attached (state (handleDown e ev s)) \<and>
      visible_iff_attached (state (handleMove e ev s)) \<and>
      visible_iff_attached (state (handleUp s)))"
  by (auto simp add: visible_iff_attached_def detach_def handleDown_frame handleMove_frame
      handleUp_frame on_def Let_def split: option.splits)

theorem visible_iff_attached_kept_witness:
  "visible_iff_attached on_cube \<and>
   visible_iff_attached (detach on_cube) \<and>
   visible_iff_attached (update view_left on_cube) \<and>
   visible_iff_attached (on ''change'' 3 on_cube) \<and>
   visible_iff_attached (state (handleDown view_left (mouse_event mousedown 460 300) on_cube)) \<and>
   visible_iff_attached (state (handleMove view_left (mouse_event mousedown 460 300) on_cube)) \<and>
   visible_iff_attached (state (handleUp on_cube))"
proof -
  have a: "visible_iff_attached on_cube"
    using visible_iff_attached_kept[of "view (3/5, 0)" "Some cube" fresh]
    by (simp add: on_cube_def)
  with visible_iff_attached_kept[of view_left None on_cube "''change''" 3
      "mouse_event mousedown 460 300"]
  show ?thesis by simp
qed

subsection \<open>A drag changes the position only\<close>

text \<open>
  Claim C5.  Whatever pointer events reach the gizmo, from the start of a drag through
  every move to its end, the rotation and the scale of the attached object stay what
  they were: the handlers write its position only.
\<close>

theorem drag_translation_only:
  "map_option quaternion (attachedObject (run evs s)) = map_option quaternion (attachedObject s) \<and>
   map_option scale (attachedObject (run evs s)) = map_option scale (attachedObject s)"
proof (induction evs arbitrary: s)
  case Nil
  show ?case by simp
next
  case (Cons p evs)
  obtain e ev where p: "p = (e, ev)" by (cases p)
  show ?case using Cons.IH[of "state (dispatch e ev s)"]
    by (simp add: p dispatch_object_frame)
qed

theorem drag_translation_only_witness:
  "map_option quaternion (attachedObject (run
      [(view (3/5, 0), mouse_event mousedown 460 300),
       (view (3/5, 0), mouse_event mousemove 560 300),
       (view (3/5, 0), mouse_event mouseup 560 300)] on_cube)) = Some (Quaternion 0 0 0 1) \<and>
   map_option scale (attachedObject (run
      [(view (3/5, 0), mouse_event mousedown 460 300),
       (view (3/5, 0), mouse_event mousemove 560 300),
       (view (3/5, 0), mouse_event mouseup 560 300)] on_cube)) = Some (Vector3 1 1 1)"
  using drag_translation_only[of
      "[(view (3/5, 0), mouse_event mousedown 460 300),
        (view (3/5, 0), mouse_event mousemove 560 300),
        (view (3/5, 0), mouse_event mouseup 560 300)]" on_cube]
  by (simp add: on_cube_fields cube_def)

subsection \<open>A ray that misses the drag plane\<close>

text \<open>
  Claim C2.  During a drag, a pointer move whose ray does not meet the drag plane leaves
  the attached object as it was; the handler only records the pointer and the ray, and
  throws nothing.
\<close>

theorem handleMove_miss:
  assumes "isDragging s"
    and "intersectPlane (setFromCamera e (pointer e ev)) (dragPlane s) = None"
  shows "attachedObject (state (handleMove e ev s)) = attachedObject s \<and>
         state (handleMove e ev s) =
           s\<lparr>mouse := pointer e ev, raycaster_ray := setFromCamera e (pointer e ev)\<rparr> \<and>
         thrown (handleMove e ev s) = None"
  using assms by (simp add: handleMove_def Let_def)

lemma miss_away:
  "intersectPlane (setFromCamera view_away (pointer view_away (mouse_event mousemove 560 300)))
     (dragPlane grabbed) = None"
  by (simp add: pointer_mouse grabbed_fields view_fields vec_defs)

theorem handleMove_miss_witness:
  "isDragging grabbed \<and>
   intersectPlane (setFromCamera view_away (pointer view_away (mouse_event mousemove 560 300)))
     (dragPlane grabbed) = None \<and>
   attachedObject (state (handleMove view_away (mouse_event mousemove 560 300) grabbed)) =
     Some cube \<and>
   thrown (handleMove view_away (mouse_event mousemove 560 300) grabbed) = None"
  using handleMove_miss[of grabbed view_away "mouse_event mousemove 560 300"] miss_away
  by (simp add: grabbed_fields)

subsection \<open>A pointer press that starts no drag\<close>

text \<open>
  Claim C4.  A \<^verbatim>\<open>mousedown\<close> or \<^verbatim>\<open>touchstart\<close> with no object attached, or whose ray
  hits no object that has an axis tag on itself or on an ancestor, does nothing that
  shows: the drag flag and the active axis stay what they were, the attached object, the
  group and the callback lists are unchanged, no callback is called, nothing is thrown.
\<close>

theorem handleDown_silent:
  assumes "attachedObject s = None \<or>
           (\<forall>n \<in> set (intersectObjects e (setFromCamera e (pointer e ev))).
              \<forall>m \<in> set (ancestors n). userData_axis m = None)"
  shows "isDragging (state (handleDown e ev s)) = isDragging s \<and>
         activeAxis (state (handleDown e ev s)) = activeAxis s \<and>
         attachedObject (state (handleDown e ev s)) = attachedObject s \<and>
         gizmoGroup (state (handleDown e ev s)) = gizmoGroup s \<and>
         callbacks (state (handleDown e ev s)) = callbacks s \<and>
         effects (handleDown e ev s) = [] \<and>
         thrown (handleDown e ev s) = None"
proof (cases "attachedObject s = None \<or> \<not> visible (gizmoGroup s)")
  case True
  then show ?thesis by (simp add: handleDown_def)
next
  case False
  with assms have untagged:
    "\<forall>n \<in> set (intersectObjects e (setFromCamera e (pointer e ev))).
       \<forall>m \<in> set (ancestors n). userData_axis m = None"
    by blast
  show ?thesis
  proof (cases "intersectObjects e (setFromCamera e (pointer e ev))")
    case Nil
    with False show ?thesis by (simp add: handleDown_def Let_def)
  next
    case (Cons hit rest)
    with untagged have "\<forall>m \<in> set (ancestors hit). userData_axis m = None" by simp
    with climb_in_ancestors[of hit] have "userData_axis (climb hit) = None" by blast
    with False Cons show ?thesis by (simp add: handleDown_def Let_def)
  qed
qed

lemma centre_hit:
  "intersectObjects view_side
     (setFromCamera view_side (pointer view_side (mouse_event mousedown 400 300))) =
   [SphereMesh]"
  by (simp add: pointer_mouse view_fields)

theorem handleDown_silent_witness:
  "attachedObject fresh = None \<and>
   \<not> isDragging (state (handleDown (view (3/5, 0)) (mouse_event mousedown 460 300) fresh)) \<and>
   effects (handleDown (view (3/5, 0)) (mouse_event mousedown 460 300) fresh) = [] \<and>
   intersectObjects view_side
     (setFromCamera view_side (pointer view_side (mouse_event mousedown 400 300))) =
     [SphereMesh] \<and>
   \<not> isDragging (state (handleDown view_side (mouse_event mousedown 400 300) on_cube)) \<and>
   activeAxis (state (handleDown view_side (mouse_event mousedown 400 300) on_cube)) = None \<and>
   attachedObject (state (handleDown view_side (mouse_event mousedown 400 300) on_cube)) =
     Some cube \<and>
   effects (handleDown view_side (mouse_event mousedown 400 300) on_cube) = [] \<and>
   thrown (handleDown view_side (mouse_event mousedown 400 300) on_cube) = None"
proof -
  have none: "attachedObject fresh = None" and still: "\<not> isDragging fresh"
    by (simp_all add: fresh_eval SleekGizmoLite_def)
  have untagged: "\<forall>n \<in> set (intersectObjects view_side
      (setFromCamera view_side (pointer view_side (mouse_event mousedown 400 300)))).
      \<forall>m \<in> set (ancestors n). userData_axis m = None"
    by (simp add: centre_hit ancestors_SphereMesh)
  from handleDown_silent[of fresh "view (3/5, 0)" "mouse_event mousedown 460 300"] none still
  have a: "\<not> isDragging (state (handleDown (view (3/5, 0)) (mouse_event mousedown 460 300) fresh))"
    "effects (handleDown (view (3/5, 0)) (mouse_event mousedown 460 300) fresh) = []"
    by simp_all
  from handleDown_silent[of on_cube view_side "mouse_event mousedown 400 300"] untagged
  show ?thesis using a none centre_hit by (simp add: on_cube_fields)
qed

subsection \<open>The gizmo follows the object and the camera\<close>

text \<open>
  Claim C6.  A call of \<^verbatim>\<open>update()\<close> with an object attached and the group visible sets
  the three scale factors of the group to 0.09 times the distance between the camera's
  position and the object's position, and copies the object's position and orientation
  to the group.
\<close>

theorem update_follows_and_scales:
  assumes "attachedObject s = Some obj" and "visible (gizmoGroup s)"
  shows "scale (gizmoGroup (update e s)) =
           Vector3 (0.09 * distanceTo (camera_position e) (position obj))
                   (0.09 * distanceTo (camera_position e) (position obj))
                   (0.09 * distanceTo (camera_position e) (position obj)) \<and>
         distanceTo (camera_position e) (position obj) =
           sqrt ((vx (camera_position e) - vx (position obj))\<^sup>2 +
                 (vy (camera_position e) - vy (position obj))\<^sup>2 +
                 (vz (camera_position e) - vz (position obj))\<^sup>2) \<and>
         position (gizmoGroup (update e s)) = position obj \<and>
         quaternion (gizmoGroup (update e s)) = quaternion obj"
  using assms
  by (simp add: update_def Let_def distanceTo_def distanceToSquared_def power2_eq_square)

theorem update_follows_and_scales_witness:
  "attachedObject on_cube = Some cube \<and> visible (gizmoGroup on_cube) \<and>
   scale (gizmoGroup (update view_left on_cube)) = Vector3 (9/20) (9/20) (9/20) \<and>
   distanceTo (camera_position view_left) (position cube) = 5 \<and>
   position (gizmoGroup (update view_left on_cube)) = Vector3 0 0 0 \<and>
   quaternion (gizmoGroup (update view_left on_cube)) = Quaternion 0 0 0 1"
proof -
  have d: "distanceTo (camera_position view_left) (position cube) = 5"
    by (simp add: view_fields cube_def distanceTo_def distanceToSquared_def sqrt_25)
  from update_follows_and_scales[of on_cube cube view_left] d
  show ?thesis by (simp add: on_cube_fields cube_def)
qed

lemma updateChild_eq:
  "updateChild cam g =
     (case g of
        Sphere \<Rightarrow> Sphere
      | Handle h \<Rightarrow>
          Handle (h\<lparr>scale_y := (if coord (h_axis h) cam < - 0.2 then - 1 else 1)\<rparr>))"
proof (cases g)
  case Sphere
  then show ?thesis by (simp add: updateChild_def)
next
  case (Handle h)
  then show ?thesis by (cases "h_axis h") (simp_all add: updateChild_def coord_def Let_def)
qed

lemma update_children:
  assumes "attachedObject s = Some obj" and "visible (gizmoGroup s)" and "\<not> isDragging s"
  shows "children (gizmoGroup (update e s)) =
           map (updateChild (localCamera e obj)) (children (gizmoGroup s))"
  using assms
  by (simp add: update_def Let_def updateVisuals_def localCamera_def invert_def)

lemma left_behind_eval:
  "left_behind = fresh
     \<lparr>attachedObject := None,
      gizmoGroup := \<lparr>position = Vector3 0 0 0, quaternion = Quaternion 0 0 0 1,
                     scale = Vector3 (9/20) (9/20) (9/20), visible = False,
                     children = [Sphere,
                       Handle \<lparr>h_axis = X, baseColor = 16722527, color = 16722527, scale_y = - 1\<rparr>,
                       Handle \<lparr>h_axis = Y, baseColor = 58998, color = 58998, scale_y = 1\<rparr>,
                       Handle \<lparr>h_axis = Z, baseColor = 2718207, color = 2718207, scale_y = 1\<rparr>]\<rparr>\<rparr>"
  by (simp add: left_behind_def detach_def attach_def fresh_eval SleekGizmoLite_def new_Group_def
      buildGizmo_def addHandle_def default_colors_def update_def updateVisuals_def
      updateChild_def view_fields cube_def vec_defs Let_def sqrt_25)

text \<open>
  Claim C7, as the spec states it: after every \<^verbatim>\<open>update()\<close> outside a drag a handle is
  mirrored exactly when the camera is below -0.2 on the handle's axis in the gizmo's
  frame.  It fails when nothing is attached: the cube was attached with the camera on
  the left and then detached; the camera is now at \<open>(0, 0, 5)\<close>, at 0 on the X axis of the
  gizmo's frame, and after \<^verbatim>\<open>update()\<close> the X handle is still mirrored.
\<close>

theorem update_flips_counterexample:
  "\<not> isDragging left_behind \<and>
   coord X (applyQuaternion
      (subVectors (camera_position (view (0, 0)))
         (position (gizmoGroup (update (view (0, 0)) left_behind))))
      (invert (quaternion (gizmoGroup (update (view (0, 0)) left_behind))))) = 0 \<and>
   children (gizmoGroup (update (view (0, 0)) left_behind)) ! 1 =
     Handle \<lparr>h_axis = X, baseColor = 16722527, color = 16722527, scale_y = - 1\<rparr>"
  by (simp add: left_behind_eval fresh_eval SleekGizmoLite_def update_def view_fields vec_defs)

text \<open>
  Claim C7, amended: after every \<^verbatim>\<open>update()\<close> outside a drag, with an object attached
  and the group visible, each handle has \<^verbatim>\<open>scale.y = -1\<close> when the camera's position in
  the object's frame is below -0.2 on the handle's axis, and \<^verbatim>\<open>scale.y = 1\<close> otherwise;
  nothing else of the children changes.
\<close>

theorem update_flips_handles:
  assumes "attachedObject s = Some obj" and "visible (gizmoGroup s)" and "\<not> isDragging s"
  shows "children (gizmoGroup (update e s)) =
           map (\<lambda>g. case g of
                       Sphere \<Rightarrow> Sphere
                     | Handle h \<Rightarrow>
                         Handle (h\<lparr>scale_y :=
                           (if coord (h_axis h) (localCamera e obj) < - 0.2 then - 1 else 1)\<rparr>))
               (children (gizmoGroup s))"
  unfolding update_children[OF assms]
  by (rule map_cong[OF refl]) (rule updateChild_eq)

theorem update_flips_handles_witness:
  "attachedObject on_cube = Some cube \<and> visible (gizmoGroup on_cube) \<and> \<not> isDragging on_cube \<and>
   localCamera view_left cube = Vector3 (- 5) 0 0 \<and>
   children (gizmoGroup (update view_left on_cube)) =
     [Sphere,
      Handle \<lparr>h_axis = X, baseColor = 16722527, color = 16722527, scale_y = - 1\<rparr>,
      Handle \<lparr>h_axis = Y, baseColor = 58998, color = 58998, scale_y = 1\<rparr>,
      Handle \<lparr>h_axis = Z, baseColor = 2718207, color = 2718207, scale_y = 1\<rparr>]"
proof -
  have c: "localCamera view_left cube = Vector3 (- 5) 0 0"
    by (simp add: localCamera_def view_fields cube_def vec_defs)
  have k: "children (gizmoGroup on_cube) =
     [Sphere,
      Handle \<lparr>h_axis = X, baseColor = 16722527, color = 16722527, scale_y = 1\<rparr>,
      Handle \<lparr>h_axis = Y, baseColor = 58998, color = 58998, scale_y = 1\<rparr>,
      Handle \<lparr>h_axis = Z, baseColor = 2718207, color = 2718207, scale_y = 1\<rparr>]"
    by (simp add: on_cube_eval)
  from update_flips_handles[of on_cube cube view_left]
  show ?thesis by (simp add: on_cube_fields c k coord_def)
qed

subsection \<open>Dragging along the axis\<close>

lemma add_zero_scaled: "add p (multiplyScalar u 0) = p"
  by (cases p) (simp add: add_def multiplyScalar_def)

text \<open>The state a pointer press on a handle leaves.\<close>

lemma handleDown_starts:
  assumes "attachedObject s = Some obj" and "visible (gizmoGroup s)"
    and "intersectObjects e (setFromCamera e (pointer e ev)) = hit # rest"
    and "userData_axis (climb hit) = Some a"
  shows "isDragging (state (handleDown e ev s))"
    and "activeAxis (state (handleDown e ev s)) = Some a"
    and "attachedObject (state (handleDown e ev s)) = Some obj"
    and "startPosition (state (handleDown e ev s)) = position obj"
    and "dragPlane (state (handleDown e ev s)) =
           setFromNormalAndCoplanarPoint (camera_worldDirection e) (position obj)"
    and "startIntersection (state (handleDown e ev s)) =
           (case intersectPlane (setFromCamera e (pointer e ev))
                   (setFromNormalAndCoplanarPoint (camera_worldDirection e) (position obj)) of
              None \<Rightarrow> Vector3 0 0 0 | Some p \<Rightarrow> p)"
    and "thrown (handleDown e ev s) = None"
  using assms by (simp_all add: handleDown_def startDrag_def Let_def)

text \<open>One pointer move of a drag with an object attached.\<close>

lemma handleMove_step:
  assumes "isDragging s" and "attachedObject s = Some obj"
  shows "attachedObject (state (handleMove e ev s)) =
           (case intersectPlane (setFromCamera e (pointer e ev)) (dragPlane s) of
              None \<Rightarrow> Some obj
            | Some p \<Rightarrow>
                Some (obj\<lparr>position :=
                  add (startPosition s)
                    (multiplyScalar (normalize_vec (getAxisVector (activeAxis s) obj))
                       (dot (subVectors p (startIntersection s))
                            (normalize_vec (getAxisVector (activeAxis s) obj))))\<rparr>))"
  using assms by (simp add: handleMove_def Let_def split: option.splits)

text \<open>
  What the pointer moves of a drag keep: the drag itself, its plane and start, the
  rotation and scale of the object, and the object on the line through the start
  position along the axis.
\<close>

lemma moves_keep_drag:
  assumes "list_all is_move moves" and "isDragging s" and "attachedObject s = Some obj"
    and "position obj = add (startPosition s)
           (multiplyScalar (normalize_vec (getAxisVector (activeAxis s) obj)) k0)"
  shows "\<exists>obj' k. attachedObject (run moves s) = Some obj' \<and>
           quaternion obj' = quaternion obj \<and> scale obj' = scale obj \<and>
           position obj' = add (startPosition s)
             (multiplyScalar (normalize_vec (getAxisVector (activeAxis s) obj)) k) \<and>
           isDragging (run moves s) \<and> activeAxis (run moves s) = activeAxis s \<and>
           dragPlane (run moves s) = dragPlane s \<and>
           startPosition (run moves s) = startPosition s \<and>
           startIntersection (run moves s) = startIntersection s"
  using assms
proof (induction moves arbitrary: s obj k0)
  case Nil
  then show ?case by auto
next
  case (Cons m moves)
  obtain e ev where m: "m = (e, ev)" by (cases m)
  from Cons.prems(1) m have im: "is_move (e, ev)" and rest: "list_all is_move moves"
    by simp_all
  from im have mv: "dispatch e ev s = handleMove e ev s"
    by (auto simp: is_move_def dispatch_def)
  let ?s' = "state (handleMove e ev s)"
  let ?u = "normalize_vec (getAxisVector (activeAxis s) obj)"
  have keep: "isDragging ?s'" "activeAxis ?s' = activeAxis s" "dragPlane ?s' = dragPlane s"
    "startPosition ?s' = startPosition s" "startIntersection ?s' = startIntersection s"
    using Cons.prems(2) by (simp_all add: handleMove_frame)
  obtain obj1 k1 where o1: "attachedObject ?s' = Some obj1" "quaternion obj1 = quaternion obj"
    "scale obj1 = scale obj" "position obj1 = add (startPosition s) (multiplyScalar ?u k1)"
  proof (cases "intersectPlane (setFromCamera e (pointer e ev)) (dragPlane s)")
    case None
    with handleMove_step[OF Cons.prems(2,3), of e ev] Cons.prems(4) that[of obj k0]
    show ?thesis by simp
  next
    case (Some p)
    with handleMove_step[OF Cons.prems(2,3), of e ev]
      that[of "obj\<lparr>position := add (startPosition s)
                 (multiplyScalar ?u (dot (subVectors p (startIntersection s)) ?u))\<rparr>"
        "dot (subVectors p (startIntersection s)) ?u"]
    show ?thesis by simp
  qed
  have u1: "normalize_vec (getAxisVector (activeAxis s) obj1) = ?u"
    using o1(2) by (simp add: getAxisVector_def)
  have "\<exists>obj' k. attachedObject (run moves ?s') = Some obj' \<and>
           quaternion obj' = quaternion obj1 \<and> scale obj' = scale obj1 \<and>
           position obj' = add (startPosition ?s')
             (multiplyScalar (normalize_vec (getAxisVector (activeAxis ?s') obj1)) k) \<and>
           isDragging (run moves ?s') \<and> activeAxis (run moves ?s') = activeAxis ?s' \<and>
           dragPlane (run moves ?s') = dragPlane ?s' \<and>
           startPosition (run moves ?s') = startPosition ?s' \<and>
           startIntersection (run moves ?s') = startIntersection ?s'"
    by (rule Cons.IH[OF rest keep(1) o1(1), of k1]) (simp add: u1 keep o1)
  then show ?case
    by (simp add: m mv u1 keep o1)
qed

text \<open>A drag from the press on a handle through any number of pointer moves.\<close>

lemma drag_state:
  assumes "attachedObject s = Some obj" and "visible (gizmoGroup s)"
    and "intersectObjects e (setFromCamera e (pointer e ev)) = hit # rest"
    and "userData_axis (climb hit) = Some a"
    and "list_all is_move moves"
  shows "\<exists>obj' k. attachedObject (run moves (state (handleDown e ev s))) = Some obj' \<and>
           quaternion obj' = quaternion obj \<and> scale obj' = scale obj \<and>
           position obj' = add (position obj)
             (multiplyScalar (normalize_vec (getAxisVector (Some a) obj)) k) \<and>
           isDragging (run moves (state (handleDown e ev s))) \<and>
           activeAxis (run moves (state (handleDown e ev s))) = Some a \<and>
           dragPlane (run moves (state (handleDown e ev s))) =
             setFromNormalAndCoplanarPoint (camera_worldDirection e) (position obj) \<and>
           startPosition (run moves (state (handleDown e ev s))) = position obj \<and>
           startIntersection (run moves (state (handleDown e ev s))) =
             (case intersectPlane (setFromCamera e (pointer e ev))
                     (setFromNormalAndCoplanarPoint (camera_worldDirection e) (position obj)) of
                None \<Rightarrow> Vector3 0 0 0 | Some p \<Rightarrow> p)"
proof -
  let ?sd = "state (handleDown e ev s)"
  note st = handleDown_starts[OF assms(1-4)]
  have "position obj = add (startPosition ?sd)
          (multiplyScalar (normalize_vec (getAxisVector (activeAxis ?sd) obj)) 0)"
    by (simp add: st(4) add_zero_scaled)
  from moves_keep_drag[OF assms(5) st(1) st(3) this]
  show ?thesis by (simp add: st)
qed

lemma on_tilted_fields:
  "attachedObject on_tilted = Some tilted" "visible (gizmoGroup on_tilted)"
  "\<not> isDragging on_tilted" "callbacks on_tilted = callbacks fresh"
  by (simp_all add: on_tilted_def fresh_eval SleekGizmoLite_def)

lemma tilted_hit:
  "intersectObjects (view (7/40, 3/5))
     (setFromCamera (view (7/40, 3/5))
        (pointer (view (7/40, 3/5)) (mouse_event mousedown (835/2) 240))) =
   HitMesh X # [StickMesh X]"
  by (simp add: pointer_mouse view_fields)

lemma grabbed_tilted_fields:
  "attachedObject grabbed_tilted = Some tilted" "isDragging grabbed_tilted"
  "activeAxis grabbed_tilted = Some X"
  "dragPlane grabbed_tilted = \<lparr>normal = Vector3 0 0 (- 1), plane_constant = 0\<rparr>"
  "startIntersection grabbed_tilted = Vector3 (7/40) (3/5) 0"
  "startPosition grabbed_tilted = Vector3 0 0 0"
proof -
  have tag: "userData_axis (climb (HitMesh X)) = Some X"
    by (simp add: climb_tagged)
  note st = handleDown_starts[OF on_tilted_fields(1,2) tilted_hit tag]
  have g: "grabbed_tilted =
      state (handleDown (view (7/40, 3/5)) (mouse_event mousedown (835/2) 240) on_tilted)"
    by (simp add: grabbed_tilted_def dispatch_mouse)
  show "attachedObject grabbed_tilted = Some tilted" "isDragging grabbed_tilted"
    "activeAxis grabbed_tilted = Some X"
    by (simp_all add: g st)
  show "dragPlane grabbed_tilted = \<lparr>normal = Vector3 0 0 (- 1), plane_constant = 0\<rparr>"
    by (simp add: g st view_fields tilted_def cube_def vec_defs)
  show "startIntersection grabbed_tilted = Vector3 (7/40) (3/5) 0"
    by (simp add: g st pointer_mouse view_fields tilted_def cube_def vec_defs)
  show "startPosition grabbed_tilted = Vector3 0 0 0"
    by (simp add: g st tilted_def cube_def)
qed

text \<open>
  Claim C1, as the spec states it: during a drag on axis a the object stays on the line
  through its start position along the world axis a.  It fails for a rotated object:
  the cube turned about Z, grabbed by its X handle and dragged one unit to the right,
  ends at \<open>(49/625, 168/625, 0)\<close>, off the world X axis through its start, the origin.
\<close>

theorem drag_along_world_axis_counterexample:
  "attachedObject (run [(view (7/40, 3/5), mouse_event mousedown (835/2) 240),
                        (view (7/40, 3/5), mouse_event mousemove (1035/2) 240)] on_tilted) =
     Some (tilted\<lparr>position := Vector3 (49/625) (168/625) 0\<rparr>) \<and>
   \<not> (\<exists>k. Vector3 (49/625) (168/625) 0 =
          add (position tilted) (multiplyScalar (axisUnit (Some X)) k))"
proof -
  have "attachedObject (run [(view (7/40, 3/5), mouse_event mousemove (1035/2) 240)]
          grabbed_tilted) = Some (tilted\<lparr>position := Vector3 (49/625) (168/625) 0\<rparr>)"
    by (simp add: dispatch_mouse handleMove_def pointer_mouse grabbed_tilted_fields view_fields
        tilted_def cube_def vec_defs Let_def)
  moreover have "\<not> (\<exists>k. Vector3 (49/625) (168/625) 0 =
          add (position tilted) (multiplyScalar (axisUnit (Some X)) k))"
    by (simp add: tilted_def cube_def vec_defs)
  ultimately show ?thesis by (simp add: grabbed_tilted_def)
qed

text \<open>
  Claim C1, amended: through a drag on axis a, from the press on the handle through every
  pointer move, the attached object's position is its position at the start of the drag
  plus a scalar multiple of the unit vector of the object's own axis a, that is of the
  axis vector rotated by the object's quaternion and normalised; for an unrotated object
  this is the unit vector of the world axis a.
\<close>

theorem drag_along_object_axis:
  assumes "attachedObject s = Some obj" and "visible (gizmoGroup s)"
    and "intersectObjects e (setFromCamera e (pointer e ev)) = hit # rest"
    and "userData_axis (climb hit) = Some a"
    and "list_all is_move moves"
  shows "(\<exists>obj' k. attachedObject (run moves (state (handleDown e ev s))) = Some obj' \<and>
            position obj' = add (position obj)
              (multiplyScalar
                 (normalize_vec (applyQuaternion (axisUnit (Some a)) (quaternion obj))) k)) \<and>
         (quaternion obj = Quaternion 0 0 0 1 \<longrightarrow>
            normalize_vec (applyQuaternion (axisUnit (Some a)) (quaternion obj)) =
              axisUnit (Some a))"
proof
  from drag_state[OF assms]
  show "\<exists>obj' k. attachedObject (run moves (state (handleDown e ev s))) = Some obj' \<and>
            position obj' = add (position obj)
              (multiplyScalar
                 (normalize_vec (applyQuaternion (axisUnit (Some a)) (quaternion obj))) k)"
    unfolding getAxisVector_def by blast
  show "quaternion obj = Quaternion 0 0 0 1 \<longrightarrow>
          normalize_vec (applyQuaternion (axisUnit (Some a)) (quaternion obj)) =
            axisUnit (Some a)"
    by (cases a) (simp_all add: vec_defs)
qed

lemma grab_hit:
  "intersectObjects (view (3/5, 0))
     (setFromCamera (view (3/5, 0)) (pointer (view (3/5, 0)) (mouse_event mousedown 460 300))) =
   HitMesh X # [StickMesh X]"
  by (simp add: pointer_mouse view_fields)

theorem drag_along_object_axis_witness:
  "attachedObject on_cube = Some cube \<and> visible (gizmoGroup on_cube) \<and>
   userData_axis (climb (HitMesh X)) = Some X \<and>
   list_all is_move [(view_away, mouse_event mousemove 500 300),
                     (view (3/5, 0), mouse_event mousemove 560 300)] \<and>
   (\<exists>obj' k. attachedObject (run [(view_away, mouse_event mousemove 500 300),
                                  (view (3/5, 0), mouse_event mousemove 560 300)]
                (state (handleDown (view (3/5, 0)) (mouse_event mousedown 460 300) on_cube))) =
                Some obj' \<and>
              position obj' = add (Vector3 0 0 0) (multiplyScalar (Vector3 1 0 0) k))"
proof -
  have tag: "userData_axis (climb (HitMesh X)) = Some X"
    by (simp add: climb_tagged)
  have mv: "list_all is_move [(view_away, mouse_event mousemove 500 300),
                              (view (3/5, 0), mouse_event mousemove 560 300)]"
    by (simp add: is_move_def mouse_event_def)
  have unrotated: "quaternion cube = Quaternion 0 0 0 1" and start: "position cube = Vector3 0 0 0"
    by (simp_all add: cube_def)
  have x: "axisUnit (Some X) = Vector3 1 0 0"
    by (simp add: axisUnit_def)
  note th = drag_along_object_axis[OF on_cube_fields(1,2) grab_hit tag mv]
  from th unrotated
  have n: "normalize_vec (applyQuaternion (axisUnit (Some X)) (quaternion cube)) =
      axisUnit (Some X)"
    by blast
  from th[THEN conjunct1, unfolded n, unfolded x start]
  have "\<exists>obj' k. attachedObject (run [(view_away, mouse_event mousemove 500 300),
                                  (view (3/5, 0), mouse_event mousemove 560 300)]
                (state (handleDown (view (3/5, 0)) (mouse_event mousedown 460 300) on_cube))) =
                Some obj' \<and>
              position obj' = add (Vector3 0 0 0) (multiplyScalar (Vector3 1 0 0) k)"
    .
  with on_cube_fields(1,2) tag mv show ?thesis by (intro conjI)
qed

text \<open>The axis vector of the source is the turned axis of the drag rule.\<close>

lemma getAxisVector_rotated:
  "getAxisVector (Some a) obj = rotated_axis a (quaternion obj)"
  by (cases a)
    (simp_all add: getAxisVector_def applyQuaternion_def axisUnit_def rotated_axis_def
      power2_eq_square algebra_simps)

lemma rotated_axis_length:
  "(vx (rotated_axis a q))\<^sup>2 + (vy (rotated_axis a q))\<^sup>2 + (vz (rotated_axis a q))\<^sup>2 =
     ((qx q)\<^sup>2 + (qy q)\<^sup>2 + (qz q)\<^sup>2 + (qw q)\<^sup>2)\<^sup>2"
  by (cases a) (simp_all add: rotated_axis_def power2_eq_square algebra_simps)

lemma quat_norm_pos:
  assumes "q \<noteq> Quaternion 0 0 0 0"
  shows "0 < (qx q)\<^sup>2 + (qy q)\<^sup>2 + (qz q)\<^sup>2 + (qw q)\<^sup>2"
proof -
  from assms have "qx q \<noteq> 0 \<or> qy q \<noteq> 0 \<or> qz q \<noteq> 0 \<or> qw q \<noteq> 0"
    by (cases q) auto
  then have "0 < (qx q)\<^sup>2 \<or> 0 < (qy q)\<^sup>2 \<or> 0 < (qz q)\<^sup>2 \<or> 0 < (qw q)\<^sup>2"
    by simp
  moreover have "0 \<le> (qx q)\<^sup>2" "0 \<le> (qy q)\<^sup>2" "0 \<le> (qz q)\<^sup>2" "0 \<le> (qw q)\<^sup>2"
    by simp_all
  ultimately show ?thesis by linarith
qed

lemma rotated_axis_sqrt:
  assumes "q \<noteq> Quaternion 0 0 0 0"
  shows "0 < sqrt ((vx (rotated_axis a q))\<^sup>2 + (vy (rotated_axis a q))\<^sup>2 +
                   (vz (rotated_axis a q))\<^sup>2)"
  unfolding rotated_axis_length using quat_norm_pos[OF assms] by simp

lemma normalize_axis:
  assumes "quaternion obj \<noteq> Quaternion 0 0 0 0"
  shows "normalize_vec (getAxisVector (Some a) obj) = unit_axis a (quaternion obj)"
proof -
  let ?w = "rotated_axis a (quaternion obj)"
  have len: "vlength ?w = sqrt ((vx ?w)\<^sup>2 + (vy ?w)\<^sup>2 + (vz ?w)\<^sup>2)"
    by (simp add: vlength_def power2_eq_square)
  with rotated_axis_sqrt[OF assms, of a] have "vlength ?w \<noteq> 0" by simp
  then show ?thesis
    by (simp add: getAxisVector_rotated normalize_vec_def divideScalar_def multiplyScalar_def
        unit_axis_def Let_def len)
qed

lemma unit_axis_length:
  assumes "q \<noteq> Quaternion 0 0 0 0"
  shows "(vx (unit_axis a q))\<^sup>2 + (vy (unit_axis a q))\<^sup>2 + (vz (unit_axis a q))\<^sup>2 = 1"
proof -
  let ?w = "rotated_axis a q"
  let ?S = "(vx ?w)\<^sup>2 + (vy ?w)\<^sup>2 + (vz ?w)\<^sup>2"
  define n where "n = sqrt ?S"
  have pos: "0 < n" unfolding n_def by (rule rotated_axis_sqrt[OF assms])
  then have "0 < ?S" by (simp add: n_def)
  then have n2: "n\<^sup>2 = ?S" by (simp add: n_def)
  have u: "unit_axis a q = Vector3 (vx ?w / n) (vy ?w / n) (vz ?w / n)"
    by (simp add: unit_axis_def Let_def n_def)
  have "(vx ?w / n)\<^sup>2 + (vy ?w / n)\<^sup>2 + (vz ?w / n)\<^sup>2 = ?S / n\<^sup>2"
    by (simp only: power_divide add_divide_distrib)
  also have "\<dots> = 1" unfolding n2[symmetric] using pos by simp
  finally show ?thesis by (simp add: u)
qed

lemma projected_eq:
  "add start (multiplyScalar u (dot (subVectors p p0) u)) = projected start u p0 p"
  by (simp add: add_def multiplyScalar_def dot_def subVectors_def projected_def Let_def
      mult.commute)

text \<open>What the library's \<^verbatim>\<open>intersectPlane\<close> returns is a point of the ray and of the plane.\<close>

lemma dot_commute: "dot a b = dot b a"
  by (simp add: dot_def mult.commute)

lemma intersectPlane_hit:
  assumes "intersectPlane r (setFromNormalAndCoplanarPoint n c) = Some x"
  shows "on_ray r x" and "on_plane n c x"
proof -
  let ?den = "dot n (direction r)"
  let ?h = "dot (origin r) n - dot c n"
  from assms obtain t where t: "distanceToPlane r (setFromNormalAndCoplanarPoint n c) = Some t"
    and x: "x = ray_at r t"
    by (auto simp: intersectPlane_def split: option.splits)
  have t0: "0 \<le> t" and eq: "?den * t + ?h = 0"
  proof -
    show "0 \<le> t" using t
      by (auto simp: distanceToPlane_def Let_def split: if_splits)
    show "?den * t + ?h = 0"
    proof (cases "?den = 0")
      case True
      with t have "dot n (origin r) + - dot c n = 0"
        by (auto simp: distanceToPlane_def distanceToPoint_def
            setFromNormalAndCoplanarPoint_def Let_def split: if_splits)
      with True show ?thesis by (simp add: dot_commute[of n "origin r"])
    next
      case False
      with t have "t = - (dot (origin r) n + - dot c n) / ?den"
        by (auto simp: distanceToPlane_def setFromNormalAndCoplanarPoint_def Let_def
            split: if_splits)
      with False show ?thesis by (simp add: field_simps)
    qed
  qed
  have c: "vx x = vx (origin r) + t * vx (direction r)"
    "vy x = vy (origin r) + t * vy (direction r)"
    "vz x = vz (origin r) + t * vz (direction r)"
    by (simp_all add: x ray_at_def add_def multiplyScalar_def)
  from t0 c show "on_ray r x" unfolding on_ray_def by blast
  have "vx n * (vx x - vx c) + vy n * (vy x - vy c) + vz n * (vz x - vz c) = ?den * t + ?h"
    by (simp add: c dot_def algebra_simps)
  with eq show "on_plane n c x" by (simp add: on_plane_def)
qed

text \<open>
  Claim C3.  In a drag on axis a of an object whose quaternion is not zero, started by a
  press whose ray met the drag plane at \<open>p0\<close>, a pointer move whose ray meets the drag
  plane at \<open>p\<close> puts the object at its start position plus \<open>((p - p0) . u) u\<close>.  Here
  \<open>u\<close> is the axis vector turned by the object's quaternion and divided by its length,
  a vector of length 1; \<open>p0\<close> and \<open>p\<close> are points of the two pointer rays and of the
  plane through the object's start position whose normal is the camera's world
  direction at the press.
\<close>

theorem drag_projects_onto_axis:
  assumes "attachedObject s = Some obj" and "visible (gizmoGroup s)"
    and "intersectObjects e (setFromCamera e (pointer e ev)) = hit # rest"
    and "userData_axis (climb hit) = Some a"
    and "list_all is_move moves"
    and "quaternion obj \<noteq> Quaternion 0 0 0 0"
    and "intersectPlane (setFromCamera e (pointer e ev))
           (dragPlane (state (handleDown e ev s))) = Some p0"
    and "intersectPlane (setFromCamera e' (pointer e' ev'))
           (dragPlane (run moves (state (handleDown e ev s)))) = Some p"
  shows "(\<exists>obj'. attachedObject
              (state (handleMove e' ev' (run moves (state (handleDown e ev s))))) = Some obj' \<and>
            position obj' = projected (position obj) (unit_axis a (quaternion obj)) p0 p) \<and>
         (vx (unit_axis a (quaternion obj)))\<^sup>2 + (vy (unit_axis a (quaternion obj)))\<^sup>2 +
           (vz (unit_axis a (quaternion obj)))\<^sup>2 = 1 \<and>
         on_ray (setFromCamera e (pointer e ev)) p0 \<and>
         on_plane (camera_worldDirection e) (position obj) p0 \<and>
         on_ray (setFromCamera e' (pointer e' ev')) p \<and>
         on_plane (camera_worldDirection e) (position obj) p"
proof -
  let ?sd = "run moves (state (handleDown e ev s))"
  let ?pl = "setFromNormalAndCoplanarPoint (camera_worldDirection e) (position obj)"
  note st = handleDown_starts[OF assms(1-4)]
  from assms(7) have p0: "intersectPlane (setFromCamera e (pointer e ev)) ?pl = Some p0"
    by (simp add: st(5))
  from drag_state[OF assms(1-5)] obtain obj' where
    d: "attachedObject ?sd = Some obj'" "quaternion obj' = quaternion obj"
      "isDragging ?sd" "activeAxis ?sd = Some a" "dragPlane ?sd = ?pl"
      "startPosition ?sd = position obj" "startIntersection ?sd = p0"
    using p0 by auto
  from assms(8) have p: "intersectPlane (setFromCamera e' (pointer e' ev')) ?pl = Some p"
    by (simp add: d(5))
  have u: "normalize_vec (getAxisVector (Some a) obj') = unit_axis a (quaternion obj)"
    using normalize_axis[of obj' a] assms(6) d(2) by simp
  from handleMove_step[OF d(3) d(1), of e' ev'] assms(8)
  have "attachedObject (state (handleMove e' ev' ?sd)) =
          Some (obj'\<lparr>position := projected (position obj) (unit_axis a (quaternion obj)) p0 p\<rparr>)"
    by (simp add: d u projected_eq)
  then have "\<exists>obj'. attachedObject (state (handleMove e' ev' ?sd)) = Some obj' \<and>
      position obj' = projected (position obj) (unit_axis a (quaternion obj)) p0 p"
    by simp
  with unit_axis_length[OF assms(6), of a] intersectPlane_hit[OF p0] intersectPlane_hit[OF p]
  show ?thesis by (intro conjI)
qed

lemma on_skewed_fields:
  "attachedObject on_skewed = Some skewed" "visible (gizmoGroup on_skewed)"
  by (simp_all add: on_skewed_def)

lemma skewed_hit:
  "intersectObjects (view (- 3/5, 6/5))
     (setFromCamera (view (- 3/5, 6/5))
        (pointer (view (- 3/5, 6/5)) (mouse_event mousedown 340 180))) =
   HitMesh X # [StickMesh X]"
  by (simp add: pointer_mouse view_fields)

text \<open>
  The witness: the X handle of the cube of quaternion \<open>(0, 0, 1, 1)\<close> is pressed at
  \<open>(-3/5, 6/5, 0)\<close>; after a move that misses the plane, the pointer is at
  \<open>(2/5, 11/5, 0)\<close>, one unit to the right and one up.  The turned X axis is \<open>(0, 2, 0)\<close>,
  of length 2; the cube goes one unit along \<open>(0, 1, 0)\<close>.
\<close>

theorem drag_projects_onto_axis_witness:
  "attachedObject on_skewed = Some skewed \<and> visible (gizmoGroup on_skewed) \<and>
   userData_axis (climb (HitMesh X)) = Some X \<and>
   list_all is_move [(view_away, mouse_event mousemove 500 300)] \<and>
   quaternion skewed \<noteq> Quaternion 0 0 0 0 \<and>
   intersectPlane
     (setFromCamera (view (- 3/5, 6/5))
        (pointer (view (- 3/5, 6/5)) (mouse_event mousedown 340 180)))
     (dragPlane (state (handleDown (view (- 3/5, 6/5)) (mouse_event mousedown 340 180)
        on_skewed))) = Some (Vector3 (- 3/5) (6/5) 0) \<and>
   intersectPlane
     (setFromCamera (view (- 3/5, 6/5))
        (pointer (view (- 3/5, 6/5)) (mouse_event mousemove 440 80)))
     (dragPlane (run [(view_away, mouse_event mousemove 500 300)]
        (state (handleDown (view (- 3/5, 6/5)) (mouse_event mousedown 340 180) on_skewed)))) =
     Some (Vector3 (2/5) (11/5) 0) \<and>
   rotated_axis X (quaternion skewed) = Vector3 0 2 0 \<and>
   unit_axis X (quaternion skewed) = Vector3 0 1 0 \<and>
   (\<exists>obj'. attachedObject
        (state (handleMove (view (- 3/5, 6/5)) (mouse_event mousemove 440 80)
           (run [(view_away, mouse_event mousemove 500 300)]
              (state (handleDown (view (- 3/5, 6/5)) (mouse_event mousedown 340 180)
                 on_skewed))))) = Some obj' \<and>
      position obj' = Vector3 0 1 0)"
proof -
  let ?e = "view (- 3/5, 6/5)"
  let ?down = "mouse_event mousedown 340 180"
  let ?moves = "[(view_away, mouse_event mousemove 500 300)]"
  have tag: "userData_axis (climb (HitMesh X)) = Some X"
    by (simp add: climb_tagged)
  have mv: "list_all is_move ?moves"
    by (simp add: is_move_def mouse_event_def)
  have q: "quaternion skewed \<noteq> Quaternion 0 0 0 0"
    by (simp add: skewed_def cube_def)
  have w: "rotated_axis X (quaternion skewed) = Vector3 0 2 0"
    by (simp add: rotated_axis_def skewed_def cube_def)
  have u: "unit_axis X (quaternion skewed) = Vector3 0 1 0"
    by (simp add: unit_axis_def w Let_def)
  have pl0: "dragPlane (state (handleDown ?e ?down on_skewed)) =
      \<lparr>normal = Vector3 0 0 (- 1), plane_constant = 0\<rparr>"
    using handleDown_starts(5)[OF on_skewed_fields skewed_hit tag]
    by (simp add: view_fields skewed_def cube_def vec_defs)
  have "dragPlane (run ?moves (state (handleDown ?e ?down on_skewed))) =
      dragPlane (state (handleDown ?e ?down on_skewed))"
    by (simp add: dispatch_mouse handleMove_frame)
  with pl0 have pl1: "dragPlane (run ?moves (state (handleDown ?e ?down on_skewed))) =
      \<lparr>normal = Vector3 0 0 (- 1), plane_constant = 0\<rparr>"
    by simp
  have h0: "intersectPlane (setFromCamera ?e (pointer ?e ?down))
      \<lparr>normal = Vector3 0 0 (- 1), plane_constant = 0\<rparr> = Some (Vector3 (- 3/5) (6/5) 0)"
    by (simp add: pointer_mouse view_fields vec_defs)
  have h1: "intersectPlane (setFromCamera ?e (pointer ?e (mouse_event mousemove 440 80)))
      \<lparr>normal = Vector3 0 0 (- 1), plane_constant = 0\<rparr> = Some (Vector3 (2/5) (11/5) 0)"
    by (simp add: pointer_mouse view_fields vec_defs)
  have p0: "intersectPlane (setFromCamera ?e (pointer ?e ?down))
      (dragPlane (state (handleDown ?e ?down on_skewed))) = Some (Vector3 (- 3/5) (6/5) 0)"
    unfolding pl0 by (rule h0)
  have p: "intersectPlane (setFromCamera ?e (pointer ?e (mouse_event mousemove 440 80)))
      (dragPlane (run ?moves (state (handleDown ?e ?down on_skewed)))) =
      Some (Vector3 (2/5) (11/5) 0)"
    unfolding pl1 by (rule h1)
  have r: "projected (position skewed) (Vector3 0 1 0) (Vector3 (- 3/5) (6/5) 0)
      (Vector3 (2/5) (11/5) 0) = Vector3 0 1 0"
    by (simp add: projected_def skewed_def cube_def Let_def)
  from drag_projects_onto_axis[OF on_skewed_fields skewed_hit tag mv q p0 p,
      THEN conjunct1, unfolded u r]
  have "\<exists>obj'. attachedObject
        (state (handleMove ?e (mouse_event mousemove 440 80)
           (run ?moves (state (handleDown ?e ?down on_skewed))))) = Some obj' \<and>
      position obj' = Vector3 0 1 0"
    .
  with on_skewed_fields tag mv q p0 p w u show ?thesis by (intro conjI)
qed

subsection \<open>A pointer move after \<^verbatim>\<open>detach()\<close>\<close>

text \<open>
  With an object attached, or with a ray that misses the drag plane, a pointer move of a
  drag calls each \<^verbatim>\<open>onChange\<close> callback once, in the order of registration.
\<close>

lemma handleMove_fires_onChange:
  assumes "isDragging s"
    and "attachedObject s \<noteq> None \<or>
         intersectPlane (setFromCamera e (pointer e ev)) (dragPlane s) = None"
  shows "effects (handleMove e ev s) =
           (if ev_type ev = touchmove then [PreventDefault] else []) @
           map (Called OnChange) (callbacks s OnChange)"
    and "thrown (handleMove e ev s) = None"
  using assms by (auto simp add: handleMove_def Let_def trigger_def split: option.splits)

text \<open>
  Claim C8 says that every pointer move of a drag triggers the \<^verbatim>\<open>onChange\<close> callbacks
  once.  After \<^verbatim>\<open>detach()\<close> in the middle of a drag the gizmo is still dragging with
  nothing attached; the next pointer move whose ray meets the drag plane throws a
  \<^verbatim>\<open>TypeError\<close> in \<^verbatim>\<open>_getAxisVector\<close>, before \<^verbatim>\<open>_trigger('onChange')\<close>: the
  registered callback is not called.
\<close>

theorem handleMove_after_detach_throws:
  "isDragging dropped \<and> attachedObject dropped = None \<and> callbacks dropped OnChange = [7] \<and>
   thrown (handleMove (view (3/5, 0)) (mouse_event mousemove 560 300) dropped) = Some TypeError \<and>
   effects (handleMove (view (3/5, 0)) (mouse_event mousemove 560 300) dropped) = []"
  by (simp add: dropped_def detach_def handleMove_def pointer_mouse grabbed_fields view_fields
      mouse_event_def vec_defs Let_def)

end
